theory Spec2Isabelle
  imports Main "HOL-Library.Word" "HOL-Library.Signed_Division"
begin

section \<open>The memory model\<close>

text \<open>
  \<^verbatim>\<open>cortex::matrix<_Tp>\<close> (\<^verbatim>\<open>src/matrix.hpp\<close>) keeps its elements in a raw buffer
  obtained from \<^verbatim>\<open>::operator new\<close> and manages the lifetime of the objects in it by
  hand.  The embedding therefore has an explicit heap.

  \<^item> A \<^emph>\<open>slot\<close> of a buffer is \<open>Some v\<close> while an object with the value \<open>v\<close> lives in
    it, and \<open>None\<close> while it holds no value that may be read: it is raw storage, or a
    scalar object that was default-initialised and never assigned.
  \<^item> A \<^emph>\<open>block\<close> is the list of slots of one allocation.
  \<^item> The \<^emph>\<open>heap\<close> is the list of all blocks ever allocated; the address of a block is
    its index, and a released block is \<open>None\<close>.
  \<^item> A \<^emph>\<open>pointer\<close> is \<open>None\<close> (the null pointer \<^verbatim>\<open>pointer()\<close>) or the address of a
    block; \<^verbatim>\<open>p + k\<close> is written as the pair of the pointer and the offset \<open>k\<close>.

  \<^verbatim>\<open>std::size_t\<close> has 64 bits.  A \<^verbatim>\<open>size_type\<close> value is a natural number below
  \<open>2 ^ 64\<close>, and the products that the code computes for a number of slots or of bytes
  wrap around at \<open>2 ^ 64\<close> (\<open>size_mult\<close>).  \<^verbatim>\<open>::operator new\<close> may fail: it then throws
  \<^verbatim>\<open>std::bad_alloc\<close>.  All matrices of one heap have the same element type.  An
  operation whose behaviour C++ leaves undefined (reading a slot without a value,
  writing outside a block, releasing a block twice, an arithmetic operator outside its
  domain) returns \<open>undefined_behaviour\<close>.
\<close>

datatype error =
    invalid_argument string
  | out_of_range string
  | bad_alloc
  | undefined_behaviour

type_synonym 'a block = "'a option list"

type_synonym 'a heap = "'a block option list"

type_synonym pointer = "nat option"

definition block_at :: "'a heap \<Rightarrow> nat \<Rightarrow> 'a block option" where
  "block_at h p = (if p < length h then h ! p else None)"

text \<open>
  A computation on the heap either throws or returns a value, and leaves a heap behind
  in both cases.  \<open>then_do\<close> sequences two computations: an exception of the first
  skips the second.
\<close>

definition return_val :: "'r \<Rightarrow> 'a heap \<Rightarrow> (error + 'r) \<times> 'a heap" where
  "return_val x h = (Inr x, h)"

definition throw :: "error \<Rightarrow> 'a heap \<Rightarrow> (error + 'r) \<times> 'a heap" where
  "throw e h = (Inl e, h)"

definition then_do ::
  "('a heap \<Rightarrow> (error + 'r) \<times> 'a heap) \<Rightarrow> ('r \<Rightarrow> 'a heap \<Rightarrow> (error + 's) \<times> 'a heap)
    \<Rightarrow> 'a heap \<Rightarrow> (error + 's) \<times> 'a heap" where
  "then_do c f h = (case c h of (Inl e, h') \<Rightarrow> (Inl e, h') | (Inr x, h') \<Rightarrow> f x h')"

text \<open>
  \<^verbatim>\<open>_M_deallocate(p, n)\<close>, that is \<^verbatim>\<open>::operator delete(p)\<close>: nothing for the null
  pointer, the release of the block otherwise.
\<close>

definition M_deallocate :: "pointer \<Rightarrow> 'a heap \<Rightarrow> (error + unit) \<times> 'a heap" where
  "M_deallocate ptr h =
     (case ptr of
        None \<Rightarrow> (Inr (), h)
      | Some p \<Rightarrow>
          (case block_at h p of
             None \<Rightarrow> (Inl undefined_behaviour, h)
           | Some blk \<Rightarrow> (Inr (), h[p := None])))"

text \<open>
  \<open>write_n ptr off vs\<close> places the values \<open>vs\<close> in the slots \<open>off, off + 1, \<dots>\<close> of the
  block at \<open>ptr\<close>.  It stands for the writing half of \<^verbatim>\<open>std::uninitialized_fill_n\<close>,
  \<^verbatim>\<open>std::uninitialized_default_construct_n\<close>, \<^verbatim>\<open>std::uninitialized_copy_n\<close>,
  \<^verbatim>\<open>std::uninitialized_move_n\<close> and of the output iterator of \<^verbatim>\<open>std::transform\<close>.
  Writing nothing is always defined; writing outside an allocated block is not.
\<close>

definition write_n :: "pointer \<Rightarrow> nat \<Rightarrow> 'a list \<Rightarrow> 'a heap \<Rightarrow> (error + unit) \<times> 'a heap" where
  "write_n ptr off vs h =
     (if vs = [] then (Inr (), h)
      else
        (case ptr of
           None \<Rightarrow> (Inl undefined_behaviour, h)
         | Some p \<Rightarrow>
             (case block_at h p of
                None \<Rightarrow> (Inl undefined_behaviour, h)
              | Some blk \<Rightarrow>
                  if off + length vs \<le> length blk
                  then (Inr (), h[p := Some (take off blk @ map Some vs @ drop (off + length vs) blk)])
                  else (Inl undefined_behaviour, h))))"

text \<open>
  \<open>load_n ptr n\<close> reads the objects in the first \<open>n\<close> slots of the block at \<open>ptr\<close>: the
  reading half of the algorithms over \<^verbatim>\<open>[p, p + n)\<close>.  Reading a slot that holds no
  object is undefined.
\<close>

definition load_n :: "pointer \<Rightarrow> nat \<Rightarrow> 'a heap \<Rightarrow> (error + 'a list) \<times> 'a heap" where
  "load_n ptr n h =
     (if n = 0 then (Inr [], h)
      else
        (case ptr of
           None \<Rightarrow> (Inl undefined_behaviour, h)
         | Some p \<Rightarrow>
             (case block_at h p of
                None \<Rightarrow> (Inl undefined_behaviour, h)
              | Some blk \<Rightarrow>
                  if n \<le> length blk \<and> list_all (\<lambda>s. s \<noteq> None) (take n blk)
                  then (Inr (map the (take n blk)), h)
                  else (Inl undefined_behaviour, h))))"

text \<open>
  \<^verbatim>\<open>std::destroy_n(p, n)\<close> ends the lifetime of the objects in the first \<open>n\<close> slots, which
  become raw storage again.  A slot among them that holds no object stays raw: for the
  trivially destructible element types the destructor call does nothing.
\<close>

definition destroy_n :: "pointer \<Rightarrow> nat \<Rightarrow> 'a heap \<Rightarrow> (error + unit) \<times> 'a heap" where
  "destroy_n ptr n h =
     (if n = 0 then (Inr (), h)
      else
        (case ptr of
           None \<Rightarrow> (Inl undefined_behaviour, h)
         | Some p \<Rightarrow>
             (case block_at h p of
                None \<Rightarrow> (Inl undefined_behaviour, h)
              | Some blk \<Rightarrow>
                  if n \<le> length blk
                  then (Inr (), h[p := Some (replicate n None @ drop n blk)])
                  else (Inl undefined_behaviour, h))))"

section \<open>The instantiation\<close>

text \<open>The product of two \<^verbatim>\<open>std::size_t\<close> values.\<close>

definition size_mult :: "nat \<Rightarrow> nat \<Rightarrow> nat" where
  "size_mult a b = (a * b) mod 2 ^ 64"

text \<open>
  What an instantiation \<^verbatim>\<open>matrix<_Tp>\<close> takes from outside the header.

  \<^item> \<open>default_init\<close>: what default-initialisation leaves in a slot.  \<open>Some v\<close> for a
    class type whose default constructor produces \<open>v\<close>; \<open>None\<close> for a scalar type such
    as \<^verbatim>\<open>int\<close>, whose default-initialisation writes nothing.
  \<^item> The operators \<^verbatim>\<open>+\<close>, \<^verbatim>\<open>-\<close>, \<^verbatim>\<open>*\<close> and \<^verbatim>\<open>/\<close> of the element type, behind
    \<^verbatim>\<open>std::plus\<close>, \<^verbatim>\<open>std::minus\<close>, \<^verbatim>\<open>std::multiplies\<close> and \<^verbatim>\<open>std::divides\<close>: what the
    concepts \<^verbatim>\<open>Addable\<close>, \<^verbatim>\<open>Subtractable\<close>, \<^verbatim>\<open>Multiplicable\<close> and \<^verbatim>\<open>Divisible\<close> ask of
    the type.  An operator is partial: \<open>None\<close> where C++ leaves the operation undefined.
  \<^item> \<open>sizeof_value\<close>: \<^verbatim>\<open>sizeof(value_type)\<close>.
  \<^item> \<open>operator_new\<close>: whether \<^verbatim>\<open>::operator new\<close> satisfies a request for a number of
    bytes in a given heap.

  Equality of elements is equality in HOL, and \<^verbatim>\<open><\<close> is the \<open><\<close> of the type class
  \<open>ord\<close>, which assumes nothing about it.
\<close>

record 'a matrix_type =
  default_init :: "'a option"
  plus_op :: "'a \<Rightarrow> 'a \<Rightarrow> 'a option"
  minus_op :: "'a \<Rightarrow> 'a \<Rightarrow> 'a option"
  multiplies_op :: "'a \<Rightarrow> 'a \<Rightarrow> 'a option"
  divides_op :: "'a \<Rightarrow> 'a \<Rightarrow> 'a option"
  sizeof_value :: nat
  operator_new :: "'a heap \<Rightarrow> nat \<Rightarrow> bool"

text \<open>
  \<^verbatim>\<open>int\<close>, of 32 bits.  The result of an arithmetic operator is defined when the
  mathematical result is an \<^verbatim>\<open>int\<close>; signed overflow is undefined, and so are the
  division by zero and \<^verbatim>\<open>INT_MIN / -1\<close>.  The quotient is \<open>sdiv\<close> of the library, taken on
  the signed values.
\<close>

definition int_result :: "int \<Rightarrow> 32 word option" where
  "int_result i = (if - (2 ^ 31) \<le> i \<and> i < 2 ^ 31 then Some (word_of_int i) else None)"

definition cpp_int :: "(32 word heap \<Rightarrow> nat \<Rightarrow> bool) \<Rightarrow> 32 word matrix_type" where
  "cpp_int new =
     \<lparr>default_init = None,
      plus_op = (\<lambda>x y. int_result (sint x + sint y)),
      minus_op = (\<lambda>x y. int_result (sint x - sint y)),
      multiplies_op = (\<lambda>x y. int_result (sint x * sint y)),
      divides_op = (\<lambda>x y. if y = 0 then None else int_result (sint x sdiv sint y)),
      sizeof_value = 4,
      operator_new = new\<rparr>"

text \<open>Two allocators: one that satisfies every request, one that satisfies none.\<close>

definition unlimited :: "'a heap \<Rightarrow> nat \<Rightarrow> bool" where
  "unlimited h bytes = True"

definition exhausted :: "'a heap \<Rightarrow> nat \<Rightarrow> bool" where
  "exhausted h bytes = False"

text \<open>
  \<^verbatim>\<open>_M_allocate(n)\<close>: the null pointer for \<open>n = 0\<close>; otherwise
  \<^verbatim>\<open>::operator new(n * sizeof(value_type))\<close>, which throws \<^verbatim>\<open>std::bad_alloc\<close> or returns
  a fresh block.  The block has as many slots as the bytes that were asked for hold
  elements: \<open>n\<close>, unless the product has wrapped around.
\<close>

definition M_allocate :: "'a matrix_type \<Rightarrow> nat \<Rightarrow> 'a heap \<Rightarrow> (error + pointer) \<times> 'a heap" where
  "M_allocate T n h =
     (if n \<noteq> 0
      then
        (let bytes = size_mult n (sizeof_value T) in
         if operator_new T h bytes
         then (Inr (Some (length h)), h @ [Some (replicate (bytes div sizeof_value T) None)])
         else (Inl bad_alloc, h))
      else (Inr None, h))"

section \<open>The matrix object\<close>

text \<open>The five data members of \<^verbatim>\<open>cortex::matrix\<close>, in the order of their declaration.\<close>

record matrix =
  m_rows :: nat
  m_columns :: nat
  m_size :: nat
  m_capacity :: nat
  m_data :: pointer

text \<open>
  The expression \<^verbatim>\<open>rows * cols != 0 ? rows * cols : std::max(rows, cols)\<close>, which the
  constructors and \<^verbatim>\<open>reserve\<close> use for the number of slots of a \<open>rows \<times> cols\<close> matrix.
\<close>

definition dims_size :: "nat \<Rightarrow> nat \<Rightarrow> nat" where
  "dims_size rows cols =
     (if size_mult rows cols \<noteq> 0 then size_mult rows cols else max rows cols)"

subsection \<open>Observers\<close>

definition size_m :: "matrix \<Rightarrow> nat" where
  "size_m m = m_size m"

definition row_size :: "matrix \<Rightarrow> nat" where
  "row_size m = m_rows m"

definition column_size :: "matrix \<Rightarrow> nat" where
  "column_size m = m_columns m"

definition capacity :: "matrix \<Rightarrow> nat" where
  "capacity m = m_capacity m"

text \<open>\<^verbatim>\<open>dimensions()\<close> is \<^verbatim>\<open>std::tie(m_columns, m_rows)\<close>.\<close>

definition dimensions :: "matrix \<Rightarrow> nat \<times> nat" where
  "dimensions m = (m_columns m, m_rows m)"

definition empty_m :: "matrix \<Rightarrow> bool" where
  "empty_m m = (m_size m = 0)"

text \<open>
  \<^verbatim>\<open>flatten()\<close> copies the range \<^verbatim>\<open>[m_data, m_data + m_size)\<close> into a vector: the flat,
  row-major sequence of the elements of the matrix.  The same range is what
  \<^verbatim>\<open>begin()\<close> and \<^verbatim>\<open>end()\<close> delimit.
\<close>

definition flatten :: "matrix \<Rightarrow> 'a heap \<Rightarrow> (error + 'a list) \<times> 'a heap" where
  "flatten m h = load_n (m_data m) (m_size m) h"

subsection \<open>Constructors and assignment\<close>

text \<open>The default constructor: no allocation.\<close>

definition matrix_default :: matrix where
  "matrix_default = \<lparr>m_rows = 0, m_columns = 0, m_size = 0, m_capacity = 0, m_data = None\<rparr>"

text \<open>
  \<^verbatim>\<open>std::uninitialized_default_construct_n(p, n)\<close> default-initialises \<open>n\<close> slots: it
  writes the value of the default constructor, or nothing for a scalar type.
\<close>

definition uninitialized_default_construct_n ::
  "'a matrix_type \<Rightarrow> pointer \<Rightarrow> nat \<Rightarrow> 'a heap \<Rightarrow> (error + unit) \<times> 'a heap" where
  "uninitialized_default_construct_n T ptr n =
     (case default_init T of
        None \<Rightarrow> return_val ()
      | Some v \<Rightarrow> write_n ptr 0 (replicate n v))"

text \<open>
  \<^verbatim>\<open>matrix(size_type rows, size_type cols)\<close>.  Every type with a default constructor
  takes the first branch of the \<^verbatim>\<open>if constexpr\<close>; the other branch needs
  \<^verbatim>\<open>value_type()\<close> and so exists for no type without one.
\<close>

definition matrix_dims ::
  "'a matrix_type \<Rightarrow> nat \<Rightarrow> nat \<Rightarrow> 'a heap \<Rightarrow> (error + matrix) \<times> 'a heap" where
  "matrix_dims T rows cols =
     (let sz = dims_size rows cols in
      then_do (M_allocate T sz) (\<lambda>data.
      then_do (uninitialized_default_construct_n T data sz) (\<lambda>_.
      return_val \<lparr>m_rows = rows, m_columns = cols, m_size = sz, m_capacity = sz,
                  m_data = data\<rparr>)))"

text \<open>\<^verbatim>\<open>matrix(size_type rows, size_type cols, const value_type& value)\<close>.\<close>

definition matrix_fill ::
  "'a matrix_type \<Rightarrow> nat \<Rightarrow> nat \<Rightarrow> 'a \<Rightarrow> 'a heap \<Rightarrow> (error + matrix) \<times> 'a heap" where
  "matrix_fill T rows cols v =
     (let sz = dims_size rows cols in
      then_do (M_allocate T sz) (\<lambda>data.
      then_do (write_n data 0 (replicate sz v)) (\<lambda>_.
      return_val \<lparr>m_rows = rows, m_columns = cols, m_size = sz, m_capacity = sz,
                  m_data = data\<rparr>)))"

text \<open>
  \<^verbatim>\<open>matrix(matrix&& other)\<close>: the new object and \<open>other\<close> as the constructor leaves it.
  The heap is not touched.
\<close>

definition matrix_move :: "matrix \<Rightarrow> matrix \<times> matrix" where
  "matrix_move other =
     (\<lparr>m_rows = m_rows other, m_columns = m_columns other, m_size = m_size other,
       m_capacity = m_capacity other, m_data = m_data other\<rparr>,
      other\<lparr>m_data := None, m_columns := 0, m_rows := 0, m_size := 0\<rparr>)"

text \<open>
  The loop of the initialiser-list constructor over the rows of the list.  Every row is
  checked against \<open>m_columns\<close>, then its elements are moved to \<^verbatim>\<open>m_data + offset\<close>, and
  \<^verbatim>\<open>offset += 2\<close>.
\<close>

fun init_rows ::
  "pointer \<Rightarrow> nat \<Rightarrow> nat \<Rightarrow> 'a list list \<Rightarrow> 'a heap \<Rightarrow> (error + unit) \<times> 'a heap" where
  "init_rows data columns offset [] h = (Inr (), h)"
| "init_rows data columns offset (row # rest) h =
     (if length row \<noteq> columns
      then (Inl (invalid_argument ''Columns must be all the same size''), h)
      else
        (case write_n data offset (take columns row) h of
           (Inl e, h') \<Rightarrow> (Inl e, h')
         | (Inr u, h') \<Rightarrow> init_rows data columns (offset + 2) rest h'))"

text \<open>
  \<^verbatim>\<open>matrix(std::initializer_list<std::initializer_list<value_type>> list)\<close>.  For an
  empty list \<^verbatim>\<open>list.begin()->size()\<close> reads past the end of the list.
\<close>

definition matrix_init_list ::
  "'a matrix_type \<Rightarrow> 'a list list \<Rightarrow> 'a heap \<Rightarrow> (error + matrix) \<times> 'a heap" where
  "matrix_init_list T list =
     (case list of
        [] \<Rightarrow> throw undefined_behaviour
      | first # others \<Rightarrow>
          (let rows = length list; columns = length first; sz = dims_size rows columns in
           then_do (M_allocate T sz) (\<lambda>data.
           then_do (init_rows data columns 0 list) (\<lambda>_.
           return_val \<lparr>m_rows = rows, m_columns = columns, m_size = sz, m_capacity = sz,
                       m_data = data\<rparr>))))"

text \<open>
  \<^verbatim>\<open>operator=(std::initializer_list<...> list)\<close> assigns all five members as the
  constructor initialises them; the buffer the object held before is not released.
\<close>

definition assign_init_list ::
  "'a matrix_type \<Rightarrow> matrix \<Rightarrow> 'a list list \<Rightarrow> 'a heap \<Rightarrow> (error + matrix) \<times> 'a heap" where
  "assign_init_list T self list =
     (case list of
        [] \<Rightarrow> throw undefined_behaviour
      | first # others \<Rightarrow>
          (let rows = length list; columns = length first; sz = dims_size rows columns in
           then_do (M_allocate T sz) (\<lambda>data.
           then_do (init_rows data columns 0 list) (\<lambda>_.
           return_val (self\<lparr>m_rows := rows, m_columns := columns, m_size := sz,
                             m_capacity := sz, m_data := data\<rparr>)))))"

subsection \<open>Comparison of two matrices\<close>

text \<open>
  \<^verbatim>\<open>std::equal(first1, last1, first2)\<close> on the two ranges read as lists of the same
  length.
\<close>

fun std_equal :: "'a list \<Rightarrow> 'a list \<Rightarrow> bool" where
  "std_equal (x # xs) (y # ys) = (if x = y then std_equal xs ys else False)"
| "std_equal xs ys = True"

text \<open>
  \<^verbatim>\<open>std::lexicographical_compare(first1, last1, first2, last2)\<close>: the first position
  where one element is less than the other decides; otherwise the first range must end
  before the second.
\<close>

fun lexicographical_compare :: "'a::ord list \<Rightarrow> 'a list \<Rightarrow> bool" where
  "lexicographical_compare (x # xs) (y # ys) =
     (if x < y then True else if y < x then False else lexicographical_compare xs ys)"
| "lexicographical_compare [] (y # ys) = True"
| "lexicographical_compare xs [] = False"

text \<open>
  \<^verbatim>\<open>operator==\<close> reads \<^verbatim>\<open>[lhs.begin(), lhs.end())\<close> and as many elements from
  \<^verbatim>\<open>rhs.begin()\<close>.
\<close>

definition op_eq :: "matrix \<Rightarrow> matrix \<Rightarrow> 'a heap \<Rightarrow> (error + bool) \<times> 'a heap" where
  "op_eq lhs rhs =
     (if dimensions lhs \<noteq> dimensions rhs then return_val False
      else
        then_do (load_n (m_data lhs) (m_size lhs)) (\<lambda>xs.
        then_do (load_n (m_data rhs) (m_size lhs)) (\<lambda>ys.
        return_val (std_equal xs ys))))"

definition op_neq :: "matrix \<Rightarrow> matrix \<Rightarrow> 'a heap \<Rightarrow> (error + bool) \<times> 'a heap" where
  "op_neq lhs rhs = then_do (op_eq lhs rhs) (\<lambda>b. return_val (\<not> b))"

definition op_lt :: "matrix \<Rightarrow> matrix \<Rightarrow> ('a::ord) heap \<Rightarrow> (error + bool) \<times> 'a heap" where
  "op_lt lhs rhs =
     then_do (load_n (m_data lhs) (m_size lhs)) (\<lambda>xs.
     then_do (load_n (m_data rhs) (m_size rhs)) (\<lambda>ys.
     return_val (lexicographical_compare xs ys)))"

definition op_gt :: "matrix \<Rightarrow> matrix \<Rightarrow> ('a::ord) heap \<Rightarrow> (error + bool) \<times> 'a heap" where
  "op_gt lhs rhs = op_lt rhs lhs"

definition op_le :: "matrix \<Rightarrow> matrix \<Rightarrow> ('a::ord) heap \<Rightarrow> (error + bool) \<times> 'a heap" where
  "op_le lhs rhs = then_do (op_lt rhs lhs) (\<lambda>b. return_val (\<not> b))"

definition op_ge :: "matrix \<Rightarrow> matrix \<Rightarrow> ('a::ord) heap \<Rightarrow> (error + bool) \<times> 'a heap" where
  "op_ge lhs rhs = then_do (op_lt lhs rhs) (\<lambda>b. return_val (\<not> b))"

text \<open>
  \<^verbatim>\<open>operator=(matrix&& other)\<close>: the object assigned to and \<open>other\<close>, as the assignment
  leaves them.  The guard is the comparison \<^verbatim>\<open>*this != other\<close> of the two values; the
  buffer the object held before is not released.
\<close>

definition assign_move ::
  "matrix \<Rightarrow> matrix \<Rightarrow> 'a heap \<Rightarrow> (error + matrix \<times> matrix) \<times> 'a heap" where
  "assign_move self other =
     then_do (op_neq self other) (\<lambda>differ.
       if differ
       then return_val
              (self\<lparr>m_rows := m_rows other, m_columns := m_columns other,
                     m_size := m_size other, m_capacity := m_capacity other,
                     m_data := m_data other\<rparr>,
               other\<lparr>m_data := None, m_rows := 0, m_columns := 0, m_size := 0\<rparr>)
       else return_val (self, other))"

subsection \<open>Capacity\<close>

text \<open>\<^verbatim>\<open>reserve(new_rows, new_columns)\<close>; every assignment is inside the \<^verbatim>\<open>if\<close>.\<close>

definition reserve ::
  "'a matrix_type \<Rightarrow> nat \<Rightarrow> nat \<Rightarrow> matrix \<Rightarrow> 'a heap \<Rightarrow> (error + matrix) \<times> 'a heap" where
  "reserve T new_rows new_columns self =
     (let new_capacity = dims_size new_rows new_columns in
      if new_capacity > m_capacity self
      then
        then_do (M_allocate T new_capacity) (\<lambda>new_data.
        then_do (load_n (m_data self) (m_size self)) (\<lambda>vs.
        then_do (write_n new_data 0 vs) (\<lambda>_.
        then_do (destroy_n (m_data self) (m_capacity self)) (\<lambda>_.
        then_do (M_deallocate (m_data self)) (\<lambda>_.
        return_val (self\<lparr>m_data := new_data, m_capacity := new_capacity,
                          m_rows := new_rows, m_columns := new_columns\<rparr>))))))
      else return_val self)"

text \<open>\<^verbatim>\<open>clear()\<close>.\<close>

definition clear :: "matrix \<Rightarrow> 'a heap \<Rightarrow> (error + matrix) \<times> 'a heap" where
  "clear self =
     (if m_size self \<noteq> 0
      then
        then_do (destroy_n (m_data self) (m_size self)) (\<lambda>_.
        return_val (self\<lparr>m_size := 0, m_rows := 0, m_columns := 0\<rparr>))
      else return_val self)"

subsection \<open>Element access\<close>

text \<open>
  A reference to an element is the slot it designates: the buffer pointer and the offset
  in the buffer.
\<close>

type_synonym reference = "pointer \<times> nat"




text \<open>Reading through a reference.\<close>

definition deref :: "reference \<Rightarrow> 'a heap \<Rightarrow> 'a option" where
  "deref r h =
     (case fst r of
        None \<Rightarrow> None
      | Some p \<Rightarrow>
          (case block_at h p of
             None \<Rightarrow> None
           | Some blk \<Rightarrow> if snd r < length blk then blk ! snd r else None))"

subsection \<open>Arithmetic\<close>

text \<open>
  The values that \<^verbatim>\<open>std::transform\<close> computes, in the order of the input: the first
  application of the operator that is undefined makes the whole call undefined.
\<close>

fun apply_binary :: "('a \<Rightarrow> 'a \<Rightarrow> 'a option) \<Rightarrow> 'a list \<Rightarrow> 'a list \<Rightarrow> 'a list option" where
  "apply_binary f (x # xs) (y # ys) =
     (case f x y of
        None \<Rightarrow> None
      | Some z \<Rightarrow> (case apply_binary f xs ys of None \<Rightarrow> None | Some zs \<Rightarrow> Some (z # zs)))"
| "apply_binary f xs ys = Some []"

fun apply_unary :: "('a \<Rightarrow> 'a option) \<Rightarrow> 'a list \<Rightarrow> 'a list option" where
  "apply_unary g (x # xs) =
     (case g x of
        None \<Rightarrow> None
      | Some z \<Rightarrow> (case apply_unary g xs of None \<Rightarrow> None | Some zs \<Rightarrow> Some (z # zs)))"
| "apply_unary g [] = Some []"

text \<open>
  \<^verbatim>\<open>std::transform(first1, first1 + n, first2, d_first, op)\<close> and its unary form, with the
  input read before the output is written (the output is a fresh matrix).
\<close>

definition transform2 ::
  "pointer \<Rightarrow> nat \<Rightarrow> pointer \<Rightarrow> pointer \<Rightarrow> ('a \<Rightarrow> 'a \<Rightarrow> 'a option) \<Rightarrow> 'a heap
    \<Rightarrow> (error + unit) \<times> 'a heap" where
  "transform2 first1 n first2 d_first binary_op =
     then_do (load_n first1 n) (\<lambda>xs.
     then_do (load_n first2 n) (\<lambda>ys.
     (case apply_binary binary_op xs ys of
        None \<Rightarrow> throw undefined_behaviour
      | Some zs \<Rightarrow> write_n d_first 0 zs)))"

definition transform1 ::
  "pointer \<Rightarrow> nat \<Rightarrow> pointer \<Rightarrow> ('a \<Rightarrow> 'a option) \<Rightarrow> 'a heap \<Rightarrow> (error + unit) \<times> 'a heap" where
  "transform1 first1 n d_first unary_op =
     then_do (load_n first1 n) (\<lambda>xs.
     (case apply_unary unary_op xs of
        None \<Rightarrow> throw undefined_behaviour
      | Some zs \<Rightarrow> write_n d_first 0 zs))"

definition add_matrix ::
  "'a matrix_type \<Rightarrow> matrix \<Rightarrow> matrix \<Rightarrow> 'a heap \<Rightarrow> (error + matrix) \<times> 'a heap" where
  "add_matrix T self other =
     (if dimensions self \<noteq> dimensions other
      then throw (invalid_argument ''In matrix::add - dimensions do not match'')
      else
        then_do (matrix_dims T (row_size self) (column_size self)) (\<lambda>result.
        then_do (transform2 (m_data self) (m_size self) (m_data other) (m_data result)
                   (plus_op T)) (\<lambda>_.
        return_val result)))"

definition sub_matrix ::
  "'a matrix_type \<Rightarrow> matrix \<Rightarrow> matrix \<Rightarrow> 'a heap \<Rightarrow> (error + matrix) \<times> 'a heap" where
  "sub_matrix T self other =
     (if dimensions self \<noteq> dimensions other
      then throw (invalid_argument ''In matrix::sub - dimensions do not match'')
      else
        then_do (matrix_dims T (row_size self) (column_size self)) (\<lambda>result.
        then_do (transform2 (m_data self) (m_size self) (m_data other) (m_data result)
                   (minus_op T)) (\<lambda>_.
        return_val result)))"

definition mul_matrix ::
  "'a matrix_type \<Rightarrow> matrix \<Rightarrow> matrix \<Rightarrow> 'a heap \<Rightarrow> (error + matrix) \<times> 'a heap" where
  "mul_matrix T self other =
     (if dimensions self \<noteq> dimensions other
      then throw (invalid_argument ''In matrix::mult - dimensions do not match'')
      else
        then_do (matrix_dims T (row_size self) (column_size self)) (\<lambda>result.
        then_do (transform2 (m_data self) (m_size self) (m_data other) (m_data result)
                   (multiplies_op T)) (\<lambda>_.
        return_val result)))"

definition mul_scalar ::
  "'a matrix_type \<Rightarrow> matrix \<Rightarrow> 'a \<Rightarrow> 'a heap \<Rightarrow> (error + matrix) \<times> 'a heap" where
  "mul_scalar T self scalar =
     (if empty_m self
      then throw (invalid_argument ''In matrix::mul - scalar multiplication on empty matrix'')
      else
        then_do (matrix_dims T (row_size self) (column_size self)) (\<lambda>result.
        then_do (transform1 (m_data self) (m_size self) (m_data result)
                   (\<lambda>elem. multiplies_op T elem scalar)) (\<lambda>_.
        return_val result)))"

definition div_matrix ::
  "'a matrix_type \<Rightarrow> matrix \<Rightarrow> matrix \<Rightarrow> 'a heap \<Rightarrow> (error + matrix) \<times> 'a heap" where
  "div_matrix T self other =
     (if dimensions self \<noteq> dimensions other
      then throw (invalid_argument ''In matrix::div - dimensions do not match'')
      else
        then_do (matrix_dims T (row_size self) (column_size self)) (\<lambda>result.
        then_do (transform2 (m_data self) (m_size self) (m_data other) (m_data result)
                   (divides_op T)) (\<lambda>_.
        return_val result)))"

definition div_scalar ::
  "('a::zero) matrix_type \<Rightarrow> matrix \<Rightarrow> 'a \<Rightarrow> 'a heap \<Rightarrow> (error + matrix) \<times> 'a heap" where
  "div_scalar T self scalar =
     (if empty_m self
      then throw (invalid_argument ''In matrix::div - scalar division on empty matrix'')
      else if scalar = 0
      then throw (invalid_argument ''In matrix::div - scalar is zero'')
      else
        then_do (matrix_dims T (row_size self) (column_size self)) (\<lambda>result.
        then_do (transform1 (m_data self) (m_size self) (m_data result)
                   (\<lambda>elem. divides_op T elem scalar)) (\<lambda>_.
        return_val result)))"

section \<open>The invariants of the data model\<close>

text \<open>
  I1 of the specification: the size of a matrix is the product of its dimensions when
  both are nonzero, and the larger of them when one is zero.
\<close>

definition slot_count :: "nat \<Rightarrow> nat \<Rightarrow> nat" where
  "slot_count rows cols = (if rows \<noteq> 0 \<and> cols \<noteq> 0 then rows * cols else max rows cols)"

definition invariant_I1 :: "matrix \<Rightarrow> bool" where
  "invariant_I1 m = (m_size m = slot_count (m_rows m) (m_columns m))"

text \<open>
  I2 of the specification: the buffer is null with capacity zero, or an allocated block
  of \<open>capacity\<close> slots; the first \<open>size\<close> slots hold values and the others hold none.
\<close>

definition invariant_I2 :: "'a heap \<Rightarrow> matrix \<Rightarrow> bool" where
  "invariant_I2 h m =
     (case m_data m of
        None \<Rightarrow> m_capacity m = 0 \<and> m_size m = 0
      | Some p \<Rightarrow>
          (case block_at h p of
             None \<Rightarrow> False
           | Some blk \<Rightarrow>
               length blk = m_capacity m \<and> m_size m \<le> m_capacity m \<and>
               list_all (\<lambda>s. s \<noteq> None) (take (m_size m) blk) \<and>
               list_all (\<lambda>s. s = None) (drop (m_size m) blk)))"

text \<open>
  A buffer of \<open>n\<close> elements has a size in bytes that \<^verbatim>\<open>std::size_t\<close> can hold, as the
  buffer of every matrix in memory does.
\<close>

definition fits :: "'a matrix_type \<Rightarrow> nat \<Rightarrow> bool" where
  "fits T n = (0 < sizeof_value T \<and> n * sizeof_value T < 2 ^ 64)"

text \<open>The allocator satisfies the request for a buffer of \<open>n\<close> elements.\<close>

definition grants :: "'a matrix_type \<Rightarrow> 'a heap \<Rightarrow> nat \<Rightarrow> bool" where
  "grants T h n = (n = 0 \<or> operator_new T h (n * sizeof_value T))"

section \<open>Example objects\<close>

text \<open>
  \<^verbatim>\<open>matrix<int>\<close> with an allocator that satisfies every request, and a heap with six
  live buffers and the matrices that own them: \<open>A = [[1, 2], [3, 4]]\<close>,
  \<open>B = [[5, 6], [7, 8]]\<close>, \<open>C = [[7, -7]]\<close>, \<open>Z = [[0, 1], [2, 0]]\<close>, \<open>A2\<close> with the
  elements of \<open>A\<close>, and \<open>M = [[INT_MIN]]\<close>.
\<close>

definition example_int :: "32 word matrix_type" where
  "example_int = cpp_int unlimited"

definition example_heap :: "32 word heap" where
  "example_heap =
     [Some [Some 1, Some 2, Some 3, Some 4],
      Some [Some 5, Some 6, Some 7, Some 8],
      Some [Some 7, Some (- 7)],
      Some [Some 0, Some 1, Some 2, Some 0],
      Some [Some 1, Some 2, Some 3, Some 4],
      Some [Some (- 2147483648)]]"

definition example_A :: matrix where
  "example_A = \<lparr>m_rows = 2, m_columns = 2, m_size = 4, m_capacity = 4, m_data = Some 0\<rparr>"

definition example_B :: matrix where
  "example_B = \<lparr>m_rows = 2, m_columns = 2, m_size = 4, m_capacity = 4, m_data = Some 1\<rparr>"

definition example_C :: matrix where
  "example_C = \<lparr>m_rows = 1, m_columns = 2, m_size = 2, m_capacity = 2, m_data = Some 2\<rparr>"

definition example_Z :: matrix where
  "example_Z = \<lparr>m_rows = 2, m_columns = 2, m_size = 4, m_capacity = 4, m_data = Some 3\<rparr>"

definition example_A2 :: matrix where
  "example_A2 = \<lparr>m_rows = 2, m_columns = 2, m_size = 4, m_capacity = 4, m_data = Some 4\<rparr>"

definition example_M :: matrix where
  "example_M = \<lparr>m_rows = 1, m_columns = 1, m_size = 1, m_capacity = 1, m_data = Some 5\<rparr>"

text \<open>
  \<open>G\<close> is \<open>A\<close> after \<^verbatim>\<open>A.reserve(3, 3)\<close>: three rows and three columns, four elements
  at the front of a new buffer of nine slots; the buffer of \<open>A\<close> is released.
\<close>

definition example_G :: matrix where
  "example_G = \<lparr>m_rows = 3, m_columns = 3, m_size = 4, m_capacity = 9, m_data = Some 6\<rparr>"

definition example_heap_G :: "32 word heap" where
  "example_heap_G =
     [None,
      Some [Some 5, Some 6, Some 7, Some 8],
      Some [Some 7, Some (- 7)],
      Some [Some 0, Some 1, Some 2, Some 0],
      Some [Some 1, Some 2, Some 3, Some 4],
      Some [Some (- 2147483648)],
      Some [Some 1, Some 2, Some 3, Some 4, None, None, None, None, None]]"

text \<open>
  \<open>R\<close> is \<^verbatim>\<open>matrix<int>(2, 3, 0)\<close> and \<open>L\<close> is a default-constructed matrix after
  \<^verbatim>\<open>reserve(2, 3)\<close>, both built in the empty heap.
\<close>

definition example_R :: matrix where
  "example_R = \<lparr>m_rows = 2, m_columns = 3, m_size = 6, m_capacity = 6, m_data = Some 0\<rparr>"

definition example_L :: matrix where
  "example_L = \<lparr>m_rows = 2, m_columns = 3, m_size = 0, m_capacity = 6, m_data = Some 1\<rparr>"

definition example_heap_R :: "32 word heap" where
  "example_heap_R = [Some [Some 0, Some 0, Some 0, Some 0, Some 0, Some 0]]"

definition example_heap_LR :: "32 word heap" where
  "example_heap_LR =
     [Some [Some 0, Some 0, Some 0, Some 0, Some 0, Some 0],
      Some [None, None, None, None, None, None]]"

section \<open>Facts about the memory model\<close>

lemma then_do_load_n:
  "load_n p n h = (Inr xs, h') \<Longrightarrow> then_do (load_n p n) f h = f xs h'"
  by (simp add: then_do_def)

lemma block_at_append_old:
  "p < length h \<Longrightarrow> block_at (h @ bs) p = block_at h p"
  by (simp add: block_at_def nth_append)

lemma block_at_append_new:
  "block_at (h @ [b]) (length h) = b"
  by (simp add: block_at_def)

lemma block_at_Some_less:
  "block_at h p = Some blk \<Longrightarrow> p < length h"
  by (simp add: block_at_def split: if_splits)

lemma block_at_update_same:
  "p < length h \<Longrightarrow> block_at (h[p := b]) p = b"
  by (simp add: block_at_def)

lemma block_at_update_other:
  "q \<noteq> p \<Longrightarrow> block_at (h[p := b]) q = block_at h q"
  by (simp add: block_at_def)

text \<open>What a successful read says about the heap.\<close>

lemma load_n_Inr_cases:
  assumes "load_n ptr n h = (Inr xs, h')"
  shows "h' = h \<and> length xs = n \<and>
         (n = 0 \<or> (\<exists>p blk. ptr = Some p \<and> block_at h p = Some blk \<and> n \<le> length blk \<and>
              list_all (\<lambda>s. s \<noteq> None) (take n blk) \<and> xs = map the (take n blk)))"
  using assms
  by (auto simp: load_n_def split: if_splits option.splits)

lemma load_n_append:
  assumes "load_n ptr n h = (Inr xs, h)"
  shows "load_n ptr n (h @ bs) = (Inr xs, h @ bs)"
  using assms
  by (auto simp: load_n_def block_at_append_old block_at_Some_less split: if_splits option.splits)



lemma write_fresh_block:
  "length zs = k \<Longrightarrow> k \<noteq> 0 \<Longrightarrow> k \<le> length blk0 \<Longrightarrow>
   write_n (Some (length h)) 0 zs (h @ [Some blk0]) =
     (Inr (), h @ [Some (map Some zs @ drop k blk0)])"
  by (auto simp: write_n_def block_at_append_new)

lemma load_written_block:
  "load_n (Some (length h)) (length zs) (h @ [Some (map Some zs @ rest)]) =
     (Inr zs, h @ [Some (map Some zs @ rest)])"
  by (simp add: load_n_def block_at_append_new list_all_length comp_def nth_append)

text \<open>Sizes that do not wrap around.\<close>

lemma size_mult_small: "a * b < 2 ^ 64 \<Longrightarrow> size_mult a b = a * b"
  by (simp add: size_mult_def)

lemma slot_count_zero: "slot_count rows cols = 0 \<longleftrightarrow> rows = 0 \<and> cols = 0"
  by (auto simp: slot_count_def)

lemma dims_size_slot_count:
  assumes "slot_count rows cols < 2 ^ 64"
  shows "dims_size rows cols = slot_count rows cols"
proof (cases "rows \<noteq> 0 \<and> cols \<noteq> 0")
  case True
  with assms have "rows * cols < 2 ^ 64" "rows * cols \<noteq> 0"
    by (simp_all add: slot_count_def)
  with True show ?thesis
    by (simp add: dims_size_def slot_count_def size_mult_small)
next
  case False
  then have "rows * cols = 0" by auto
  with False show ?thesis
    by (auto simp: dims_size_def slot_count_def size_mult_def)
qed

lemma fits_less:
  assumes "fits T n"
  shows "n < 2 ^ 64"
proof -
  from assms obtain k where k: "sizeof_value T = Suc k" and b: "n * sizeof_value T < 2 ^ 64"
    by (auto simp: fits_def gr0_conv_Suc)
  have "n \<le> n * Suc k" by simp
  with k b show ?thesis by simp
qed

text \<open>An allocation whose byte count does not wrap around.\<close>

lemma M_allocate_fits:
  assumes "fits T n"
  shows "M_allocate T n h =
     (if n = 0 then (Inr None, h)
      else if operator_new T h (n * sizeof_value T)
      then (Inr (Some (length h)), h @ [Some (replicate n None)])
      else (Inl bad_alloc, h))"
  using assms by (simp add: M_allocate_def fits_def size_mult_small Let_def)

lemma M_allocate_errors:
  "M_allocate T n h = (Inl e, h') \<Longrightarrow> e = bad_alloc \<and> h' = h"
  by (auto simp: M_allocate_def Let_def split: if_splits)

text \<open>The two dimensioned constructors, when the byte count does not wrap around.\<close>

lemma matrix_fill_result:
  assumes "fits T n" and "dims_size rows cols = n"
  shows "matrix_fill T rows cols v h =
     (if n \<noteq> 0 \<and> \<not> operator_new T h (n * sizeof_value T) then (Inl bad_alloc, h)
      else
        (Inr \<lparr>m_rows = rows, m_columns = cols, m_size = n, m_capacity = n,
               m_data = (if n = 0 then None else Some (length h))\<rparr>,
         if n = 0 then h else h @ [Some (replicate n (Some v))]))"
  using assms(2)
  by (simp add: matrix_fill_def Let_def then_do_def M_allocate_fits [OF assms(1)] write_n_def
      return_val_def block_at_append_new)

lemma matrix_dims_result:
  assumes "fits T n" and "dims_size rows cols = n"
  shows "matrix_dims T rows cols h =
     (if n \<noteq> 0 \<and> \<not> operator_new T h (n * sizeof_value T) then (Inl bad_alloc, h)
      else
        (Inr \<lparr>m_rows = rows, m_columns = cols, m_size = n, m_capacity = n,
               m_data = (if n = 0 then None else Some (length h))\<rparr>,
         if n = 0 then h else h @ [Some (replicate n (default_init T))]))"
  using assms(2)
  by (cases "default_init T")
    (simp_all add: matrix_dims_def uninitialized_default_construct_n_def Let_def then_do_def
      M_allocate_fits [OF assms(1)] write_n_def return_val_def block_at_append_new)

lemma load_replicate_Some:
  "n \<noteq> 0 \<Longrightarrow>
   load_n (Some (length h)) n (h @ [Some (replicate n (Some v))]) =
     (Inr (replicate n v), h @ [Some (replicate n (Some v))])"
  by (simp add: load_n_def block_at_append_new list_all_iff)

lemma load_replicate_None:
  "n \<noteq> 0 \<Longrightarrow>
   load_n (Some (length h)) n (h @ [Some (replicate n None)]) =
     (Inl undefined_behaviour, h @ [Some (replicate n None)])"
  by (simp add: load_n_def block_at_append_new list_all_iff)

lemma fits_slot_count:
  assumes "fits T (slot_count rows cols)"
  shows "dims_size rows cols = slot_count rows cols"
  using fits_less [OF assms] by (rule dims_size_slot_count)

text \<open>The rules that evaluate an operation on a given heap.\<close>

lemmas heap_ops =
  then_do_def return_val_def throw_def block_at_def load_n_def write_n_def destroy_n_def
  M_deallocate_def M_allocate_def size_mult_def dims_size_def flatten_def
  uninitialized_default_construct_n_def transform2_def transform1_def
  row_size_def column_size_def size_m_def capacity_def dimensions_def empty_m_def

lemmas int_ops = example_int_def cpp_int_def int_result_def unlimited_def exhausted_def
  signed_divide_int_def

lemma replicate_unfold: "replicate (numeral k) x = x # replicate (pred_numeral k) x"
  by (simp add: numeral_eq_Suc)

section \<open>Facts about the transformations\<close>

text \<open>The values a transformation computes.\<close>

lemma apply_binary_Some:
  assumes "length xs = length ys" and "apply_binary f xs ys = Some zs"
  shows "length zs = length xs \<and> (\<forall>i. i < length xs \<longrightarrow> f (xs ! i) (ys ! i) = Some (zs ! i))"
  using assms
proof (induction xs ys arbitrary: zs rule: list_induct2)
  case Nil
  then show ?case by simp
next
  case (Cons x xs y ys)
  from Cons.prems obtain z zs' where z: "f x y = Some z" "apply_binary f xs ys = Some zs'"
    "zs = z # zs'"
    by (auto split: option.splits)
  from Cons.IH [OF z(2)] z(1,3) show ?case
    by (auto simp: nth_Cons split: nat.splits)
qed


lemma apply_unary_Some:
  assumes "apply_unary g xs = Some zs"
  shows "length zs = length xs \<and> (\<forall>i. i < length xs \<longrightarrow> g (xs ! i) = Some (zs ! i))"
  using assms
proof (induction xs arbitrary: zs)
  case Nil
  then show ?case by simp
next
  case (Cons x xs)
  from Cons.prems obtain z zs' where z: "g x = Some z" "apply_unary g xs = Some zs'"
    "zs = z # zs'"
    by (auto split: option.splits)
  from Cons.IH [OF z(2)] z(1,3) show ?case
    by (auto simp: nth_Cons split: nat.splits)
qed

lemma apply_unary_None:
  assumes "i < length xs" and "g (xs ! i) = None"
  shows "apply_unary g xs = None"
  using assms
proof (induction xs arbitrary: i)
  case Nil
  then show ?case by simp
next
  case (Cons x xs)
  show ?case
  proof (cases i)
    case 0
    with Cons.prems show ?thesis by simp
  next
    case (Suc j)
    with Cons.prems Cons.IH [of j] show ?thesis by (simp split: option.splits)
  qed
qed

text \<open>
  Every arithmetic operation builds its result with \<^verbatim>\<open>matrix(rows, cols)\<close> and then
  runs \<^verbatim>\<open>std::transform\<close> into it.  The lemmas below compute that composition once:
  \<open>k\<close> values are written to the front of a fresh buffer of \<open>n\<close> slots.
\<close>

lemma write_result:
  assumes lz: "length zs = k" and kn: "k \<le> n"
  shows "write_n (if n = 0 then None else Some (length h)) 0 zs
           (if n = 0 then h else h @ [Some (replicate n d)]) =
         (Inr (), if n = 0 then h else h @ [Some (map Some zs @ replicate (n - k) d)])"
proof (cases "k = 0")
  case True
  with lz show ?thesis by (simp add: write_n_def)
next
  case False
  with kn have n: "n \<noteq> 0" by simp
  from write_fresh_block [OF lz False, of "replicate n d" h] kn n show ?thesis by simp
qed

lemma fresh_transform2:
  assumes a: "load_n p k h = (Inr xs, h)" and b: "load_n q k h = (Inr ys, h)"
    and f: "fits T n" and sz: "dims_size rows cols = n" and kn: "k \<le> n"
  shows "then_do (matrix_dims T rows cols) (\<lambda>result.
           then_do (transform2 p k q (m_data result) f) (\<lambda>_. return_val result)) h
     = (if n \<noteq> 0 \<and> \<not> operator_new T h (n * sizeof_value T) then (Inl bad_alloc, h)
        else
          (case apply_binary f xs ys of
             None \<Rightarrow>
               (Inl undefined_behaviour,
                if n = 0 then h else h @ [Some (replicate n (default_init T))])
           | Some zs \<Rightarrow>
               (Inr \<lparr>m_rows = rows, m_columns = cols, m_size = n, m_capacity = n,
                      m_data = (if n = 0 then None else Some (length h))\<rparr>,
                if n = 0 then h
                else h @ [Some (map Some zs @ replicate (n - k) (default_init T))])))"
proof (cases "n \<noteq> 0 \<and> \<not> operator_new T h (n * sizeof_value T)")
  case True
  then show ?thesis
    by (simp add: matrix_dims_result [OF f sz] then_do_def)
next
  case False
  let ?h1 = "if n = 0 then h else h @ [Some (replicate n (default_init T))]"
  let ?d = "if n = 0 then None else Some (length h)"
  let ?r = "\<lparr>m_rows = rows, m_columns = cols, m_size = n, m_capacity = n, m_data = ?d\<rparr>"
  have md: "matrix_dims T rows cols h = (Inr ?r, ?h1)"
    using False by (simp add: matrix_dims_result [OF f sz])
  have lx: "length xs = k" and ly: "length ys = k"
    using a b by (auto dest: load_n_Inr_cases)
  have a1: "load_n p k ?h1 = (Inr xs, ?h1)" using load_n_append [OF a] a by simp
  have b1: "load_n q k ?h1 = (Inr ys, ?h1)" using load_n_append [OF b] b by simp
  show ?thesis
  proof (cases "apply_binary f xs ys")
    case None
    have "transform2 p k q ?d f ?h1 = (Inl undefined_behaviour, ?h1)"
      unfolding transform2_def then_do_load_n [OF a1] then_do_load_n [OF b1]
      by (simp add: None throw_def)
    with None False md show ?thesis by (simp add: then_do_def)
  next
    case (Some zs)
    have "length xs = length ys" using lx ly by simp
    from apply_binary_Some [OF this Some] lx have lz: "length zs = k" by simp
    have "transform2 p k q ?d f ?h1 =
        (Inr (), if n = 0 then h else h @ [Some (map Some zs @ replicate (n - k) (default_init T))])"
      unfolding transform2_def then_do_load_n [OF a1] then_do_load_n [OF b1]
      using write_result [OF lz kn, of h "default_init T"] by (simp add: Some)
    with Some False md show ?thesis by (simp add: then_do_def return_val_def)
  qed
qed

lemma fresh_transform1:
  assumes a: "load_n p k h = (Inr xs, h)"
    and f: "fits T n" and sz: "dims_size rows cols = n" and kn: "k \<le> n"
  shows "then_do (matrix_dims T rows cols) (\<lambda>result.
           then_do (transform1 p k (m_data result) g) (\<lambda>_. return_val result)) h
     = (if n \<noteq> 0 \<and> \<not> operator_new T h (n * sizeof_value T) then (Inl bad_alloc, h)
        else
          (case apply_unary g xs of
             None \<Rightarrow>
               (Inl undefined_behaviour,
                if n = 0 then h else h @ [Some (replicate n (default_init T))])
           | Some zs \<Rightarrow>
               (Inr \<lparr>m_rows = rows, m_columns = cols, m_size = n, m_capacity = n,
                      m_data = (if n = 0 then None else Some (length h))\<rparr>,
                if n = 0 then h
                else h @ [Some (map Some zs @ replicate (n - k) (default_init T))])))"
proof (cases "n \<noteq> 0 \<and> \<not> operator_new T h (n * sizeof_value T)")
  case True
  then show ?thesis
    by (simp add: matrix_dims_result [OF f sz] then_do_def)
next
  case False
  let ?h1 = "if n = 0 then h else h @ [Some (replicate n (default_init T))]"
  let ?d = "if n = 0 then None else Some (length h)"
  let ?r = "\<lparr>m_rows = rows, m_columns = cols, m_size = n, m_capacity = n, m_data = ?d\<rparr>"
  have md: "matrix_dims T rows cols h = (Inr ?r, ?h1)"
    using False by (simp add: matrix_dims_result [OF f sz])
  have lx: "length xs = k"
    using a by (auto dest: load_n_Inr_cases)
  have a1: "load_n p k ?h1 = (Inr xs, ?h1)" using load_n_append [OF a] a by simp
  show ?thesis
  proof (cases "apply_unary g xs")
    case None
    have "transform1 p k ?d g ?h1 = (Inl undefined_behaviour, ?h1)"
      unfolding transform1_def then_do_load_n [OF a1]
      by (simp add: None throw_def)
    with None False md show ?thesis by (simp add: then_do_def)
  next
    case (Some zs)
    from apply_unary_Some [OF Some] lx have lz: "length zs = k" by simp
    have "transform1 p k ?d g ?h1 =
        (Inr (), if n = 0 then h else h @ [Some (map Some zs @ replicate (n - k) (default_init T))])"
      unfolding transform1_def then_do_load_n [OF a1]
      using write_result [OF lz kn, of h "default_init T"] by (simp add: Some)
    with Some False md show ?thesis by (simp add: then_do_def return_val_def)
  qed
qed

text \<open>The postcondition shared by the operations that build a fresh result.\<close>

lemma fresh_result_post:
  assumes r: "r = \<lparr>m_rows = rows, m_columns = cols, m_size = n, m_capacity = n,
              m_data = (if n = 0 then None else Some (length h))\<rparr>"
    and h': "h' = (if n = 0 then h else h @ [Some (map Some zs)])"
    and lz: "length zs = n"
  shows "flatten r h' = (Inr zs, h') \<and> take (length h) h' = h \<and>
         (m_data r = None \<or> (\<exists>p. m_data r = Some p \<and> block_at h p = None \<and>
            block_at h' p = Some (map Some zs)))"
proof (cases "n = 0")
  case True
  with r h' lz show ?thesis by (simp add: flatten_def load_n_def)
next
  case False
  have "load_n (Some (length h)) (length zs) (h @ [Some (map Some zs @ [])]) =
     (Inr zs, h @ [Some (map Some zs @ [])])"
    by (rule load_written_block)
  with False r h' lz show ?thesis
    by (simp add: flatten_def block_at_append_new) (simp add: block_at_def)
qed

section \<open>Facts about the invariants\<close>

lemma I2_cases:
  assumes "invariant_I2 h m"
  shows "(m_data m = None \<and> m_capacity m = 0 \<and> m_size m = 0) \<or>
         (\<exists>p blk. m_data m = Some p \<and> block_at h p = Some blk \<and> length blk = m_capacity m \<and>
            m_size m \<le> m_capacity m \<and> list_all (\<lambda>s. s \<noteq> None) (take (m_size m) blk) \<and>
            list_all (\<lambda>s. s = None) (drop (m_size m) blk))"
  using assms by (auto simp: invariant_I2_def split: option.splits)

lemma I2_flatten:
  assumes "invariant_I2 h m"
  shows "\<exists>xs. flatten m h = (Inr xs, h)"
  using I2_cases [OF assms] by (auto simp: flatten_def load_n_def)

lemma all_raw_replicate:
  assumes "list_all (\<lambda>s. s = None) ss"
  shows "ss = replicate (length ss) None"
  using assms by (induction ss) simp_all

lemma same_dimensions_same_size:
  "invariant_I1 a \<Longrightarrow> invariant_I1 b \<Longrightarrow> dimensions a = dimensions b \<Longrightarrow> m_size b = m_size a"
  by (simp add: invariant_I1_def dimensions_def)

lemma I1_dims_size:
  assumes "invariant_I1 m" and "fits T (m_size m)"
  shows "dims_size (m_rows m) (m_columns m) = m_size m"
proof -
  from fits_less [OF assms(2)] assms(1)
  have "slot_count (m_rows m) (m_columns m) < 2 ^ 64"
    by (simp add: invariant_I1_def)
  from dims_size_slot_count [OF this] assms(1) show ?thesis
    by (simp add: invariant_I1_def)
qed

text \<open>The example matrices satisfy the invariants, except \<open>G\<close> and \<open>L\<close>, which violate I1.\<close>

lemma flatten_example_A: "flatten example_A example_heap = (Inr [1, 2, 3, 4], example_heap)"
  by (simp add: flatten_def load_n_def block_at_def example_heap_def example_A_def)

lemma flatten_example_B: "flatten example_B example_heap = (Inr [5, 6, 7, 8], example_heap)"
  by (simp add: flatten_def load_n_def block_at_def example_heap_def example_B_def)

lemma flatten_example_C: "flatten example_C example_heap = (Inr [7, - 7], example_heap)"
  by (simp add: flatten_def load_n_def block_at_def example_heap_def example_C_def)

lemma flatten_example_Z: "flatten example_Z example_heap = (Inr [0, 1, 2, 0], example_heap)"
  by (simp add: flatten_def load_n_def block_at_def example_heap_def example_Z_def)

lemma flatten_example_A2: "flatten example_A2 example_heap = (Inr [1, 2, 3, 4], example_heap)"
  by (simp add: flatten_def load_n_def block_at_def example_heap_def example_A2_def)

lemma flatten_example_M:
  "flatten example_M example_heap = (Inr [- 2147483648], example_heap)"
  by (simp add: flatten_def load_n_def block_at_def example_heap_def example_M_def)

lemma invariant_I1_examples:
  "invariant_I1 example_A" "invariant_I1 example_B" "invariant_I1 example_C"
  "invariant_I1 example_Z" "invariant_I1 example_A2" "invariant_I1 example_M"
  by (simp_all add: invariant_I1_def slot_count_def example_A_def example_B_def example_C_def
      example_Z_def example_A2_def example_M_def)

lemma invariant_I2_examples:
  "invariant_I2 example_heap example_A" "invariant_I2 example_heap example_B"
  "invariant_I2 example_heap example_C" "invariant_I2 example_heap example_Z"
  "invariant_I2 example_heap example_A2" "invariant_I2 example_heap example_M"
  by (simp_all add: invariant_I2_def example_heap_def block_at_def example_A_def example_B_def
      example_C_def example_Z_def example_A2_def example_M_def)

lemma fits_examples:
  "fits example_int (size_m example_A)" "fits example_int (size_m example_C)"
  "fits example_int (size_m example_M)" "fits (cpp_int exhausted) (size_m example_A)"
  by (simp_all add: fits_def example_int_def cpp_int_def size_m_def example_A_def example_C_def
      example_M_def)

lemma grants_examples:
  "grants example_int h n" "\<not> grants (cpp_int exhausted) h (size_m example_A)"
  by (simp_all add: grants_def example_int_def cpp_int_def unlimited_def exhausted_def
      size_m_def example_A_def)

text \<open>The operators of \<^verbatim>\<open>int\<close> on small numbers, at its bounds and at zero.\<close>

lemma cpp_int_examples:
  "plus_op (cpp_int new) 1 5 = Some 6" "plus_op (cpp_int new) 2 6 = Some 8"
  "plus_op (cpp_int new) 3 7 = Some 10" "plus_op (cpp_int new) 4 8 = Some 12"
  "multiplies_op (cpp_int new) 7 3 = Some 21" "multiplies_op (cpp_int new) (- 7) 3 = Some (- 21)"
  "divides_op (cpp_int new) 7 2 = Some 3" "divides_op (cpp_int new) (- 7) 2 = Some (- 3)"
  "divides_op (cpp_int new) 1 0 = None"
  "divides_op (cpp_int new) (- 2147483648) (- 1) = None"
  "plus_op (cpp_int new) 2147483647 1 = None"
  by (simp_all add: cpp_int_def int_result_def signed_divide_int_def)

lemma flatten_default: "flatten matrix_default h = (Inr [], h)"
  by (simp add: flatten_def matrix_default_def load_n_def)

lemma invariant_I1_default: "invariant_I1 matrix_default"
  by (simp add: invariant_I1_def matrix_default_def slot_count_def)

lemma fits_default: "fits example_int (size_m matrix_default)"
  by (simp add: fits_def size_m_def matrix_default_def example_int_def cpp_int_def)

lemma flatten_example_L: "flatten example_L example_heap_LR = (Inr [], example_heap_LR)"
  by (simp add: flatten_def load_n_def example_L_def)

lemma flatten_example_R:
  "flatten example_R example_heap_LR = (Inr [0, 0, 0, 0, 0, 0], example_heap_LR)"
  by (simp add: flatten_def load_n_def block_at_def example_R_def example_heap_LR_def)

text \<open>
  The constructor with a fill value establishes both invariants.
\<close>

lemma matrix_fill_invariants:
  assumes "fits T (slot_count rows cols)" and "matrix_fill T rows cols v h = (Inr m, h')"
  shows "invariant_I1 m \<and> invariant_I2 h' m \<and>
         flatten m h' = (Inr (replicate (slot_count rows cols) v), h')"
proof -
  let ?n = "slot_count rows cols"
  have sz: "dims_size rows cols = ?n" by (rule fits_slot_count [OF assms(1)])
  note mf = matrix_fill_result [OF assms(1) sz, of v h]
  from mf assms(2) have m: "m = \<lparr>m_rows = rows, m_columns = cols, m_size = ?n,
      m_capacity = ?n, m_data = (if ?n = 0 then None else Some (length h))\<rparr>"
    and h': "h' = (if ?n = 0 then h else h @ [Some (replicate ?n (Some v))])"
    by (auto split: if_splits)
  have i1: "invariant_I1 m" by (simp add: m invariant_I1_def)
  have i2: "invariant_I2 h' m"
    by (simp add: m h' invariant_I2_def block_at_append_new list_all_iff)
  have fl: "flatten m h' = (Inr (replicate ?n v), h')"
  proof (cases "?n = 0")
    case True
    then show ?thesis by (simp add: flatten_def m load_n_def)
  next
    case False
    with load_replicate_Some [OF False, of h v] show ?thesis
      by (simp add: flatten_def m h')
  qed
  from i1 i2 fl show ?thesis by simp
qed

section \<open>The dimensioned constructors\<close>

text \<open>
  Claim C7, as amended.  Let \<open>n\<close> be the number of slots of a \<open>rows \<times> cols\<close> matrix by
  invariant I1: \<open>rows * cols\<close> when both are nonzero, the larger of the two when one is
  zero; and let the size in bytes of \<open>n\<close> elements be one that \<^verbatim>\<open>std::size_t\<close> holds.  If
  the allocator refuses a buffer of \<open>n\<close> elements, both dimensioned constructors throw
  \<^verbatim>\<open>std::bad_alloc\<close> and leave the heap as it was.  Otherwise both return a matrix with
  the given row and column counts, with \<open>size()\<close> equal to \<open>n\<close> and \<open>capacity()\<close> equal to
  \<open>size()\<close>.  All \<open>size()\<close> slots of the matrix built by \<^verbatim>\<open>matrix(rows, cols, value)\<close>
  hold \<open>value\<close>.  The buffer of the matrix built by \<^verbatim>\<open>matrix(rows, cols)\<close> is a new block
  of \<open>size()\<close> slots, each default-initialised: for an element type with a default
  constructor every slot holds the value it produces; for a scalar type such as \<^verbatim>\<open>int\<close>
  nothing is written, the slots hold no value, and reading the elements is undefined.
\<close>

theorem dimensioned_constructors:
  assumes "fits T (slot_count rows cols)"
  shows
    "if \<not> grants T h (slot_count rows cols)
     then matrix_dims T rows cols h = (Inl bad_alloc, h) \<and>
          matrix_fill T rows cols v h = (Inl bad_alloc, h)
     else
       (\<exists>m h' n hn.
          matrix_dims T rows cols h = (Inr m, h') \<and>
          matrix_fill T rows cols v h = (Inr n, hn) \<and>
          row_size m = rows \<and> column_size m = cols \<and>
          row_size n = rows \<and> column_size n = cols \<and>
          (rows \<noteq> 0 \<and> cols \<noteq> 0 \<longrightarrow> size_m m = rows * cols \<and> size_m n = rows * cols) \<and>
          (rows = 0 \<or> cols = 0 \<longrightarrow> size_m m = max rows cols \<and> size_m n = max rows cols) \<and>
          capacity m = size_m m \<and> capacity n = size_m n \<and>
          flatten n hn = (Inr (replicate (size_m n) v), hn) \<and>
          (size_m m = 0 \<longrightarrow> m_data m = None \<and> h' = h) \<and>
          (size_m m \<noteq> 0 \<longrightarrow>
             m_data m = Some (length h) \<and>
             h' = h @ [Some (replicate (size_m m) (default_init T))]) \<and>
          (\<forall>d. default_init T = Some d \<longrightarrow>
             flatten m h' = (Inr (replicate (size_m m) d), h')) \<and>
          (default_init T = None \<and> size_m m \<noteq> 0 \<longrightarrow>
             flatten m h' = (Inl undefined_behaviour, h')))"
proof -
  let ?n = "slot_count rows cols"
  have sz: "dims_size rows cols = ?n" by (rule fits_slot_count [OF assms])
  note md = matrix_dims_result [OF assms sz, of h]
  note mf = matrix_fill_result [OF assms sz, of v h]
  show ?thesis
  proof (cases "grants T h ?n")
    case False
    with md mf show ?thesis by (simp add: grants_def)
  next
    case True
    then have g: "\<not> (?n \<noteq> 0 \<and> \<not> operator_new T h (?n * sizeof_value T))"
      by (auto simp: grants_def)
    define m where "m = \<lparr>m_rows = rows, m_columns = cols, m_size = ?n, m_capacity = ?n,
               m_data = (if ?n = 0 then None else Some (length h))\<rparr>"
    define h' where "h' = (if ?n = 0 then h else h @ [Some (replicate ?n (default_init T))])"
    define hn where "hn = (if ?n = 0 then h else h @ [Some (replicate ?n (Some v))])"
    have rm: "matrix_dims T rows cols h = (Inr m, h')"
      using md g by (simp add: m_def h'_def)
    have rn: "matrix_fill T rows cols v h = (Inr m, hn)"
      using mf g by (simp add: m_def hn_def)
    have obs: "row_size m = rows" "column_size m = cols" "size_m m = ?n" "capacity m = ?n"
      by (simp_all add: m_def row_size_def column_size_def size_m_def capacity_def)
    have nz: "rows \<noteq> 0 \<and> cols \<noteq> 0 \<longrightarrow> ?n = rows * cols"
      and z: "rows = 0 \<or> cols = 0 \<longrightarrow> ?n = max rows cols"
      by (auto simp: slot_count_def)
    have fn: "flatten m hn = (Inr (replicate ?n v), hn)"
    proof (cases "?n = 0")
      case True
      then show ?thesis by (simp add: flatten_def m_def load_n_def)
    next
      case False
      with load_replicate_Some [OF False, of h v] show ?thesis
        by (simp add: flatten_def m_def hn_def)
    qed
    have shape: "(?n = 0 \<longrightarrow> m_data m = None \<and> h' = h) \<and>
        (?n \<noteq> 0 \<longrightarrow> m_data m = Some (length h) \<and>
           h' = h @ [Some (replicate ?n (default_init T))])"
      by (simp add: m_def h'_def)
    have fd: "flatten m h' = (Inr (replicate ?n d), h')" if "default_init T = Some d" for d
    proof (cases "?n = 0")
      case True
      then show ?thesis by (simp add: flatten_def m_def load_n_def)
    next
      case False
      with load_replicate_Some [OF False, of h d] that show ?thesis
        by (simp add: flatten_def m_def h'_def)
    qed
    have fu: "flatten m h' = (Inl undefined_behaviour, h')"
      if "default_init T = None" "?n \<noteq> 0"
      using load_replicate_None [OF that(2), of h] that
      by (simp add: flatten_def m_def h'_def)
    have body: "matrix_dims T rows cols h = (Inr m, h') \<and>
          matrix_fill T rows cols v h = (Inr m, hn) \<and>
          row_size m = rows \<and> column_size m = cols \<and>
          row_size m = rows \<and> column_size m = cols \<and>
          (rows \<noteq> 0 \<and> cols \<noteq> 0 \<longrightarrow> size_m m = rows * cols \<and> size_m m = rows * cols) \<and>
          (rows = 0 \<or> cols = 0 \<longrightarrow> size_m m = max rows cols \<and> size_m m = max rows cols) \<and>
          capacity m = size_m m \<and> capacity m = size_m m \<and>
          flatten m hn = (Inr (replicate (size_m m) v), hn) \<and>
          (size_m m = 0 \<longrightarrow> m_data m = None \<and> h' = h) \<and>
          (size_m m \<noteq> 0 \<longrightarrow>
             m_data m = Some (length h) \<and>
             h' = h @ [Some (replicate (size_m m) (default_init T))]) \<and>
          (\<forall>d. default_init T = Some d \<longrightarrow>
             flatten m h' = (Inr (replicate (size_m m) d), h')) \<and>
          (default_init T = None \<and> size_m m \<noteq> 0 \<longrightarrow>
             flatten m h' = (Inl undefined_behaviour, h'))"
      unfolding obs using rm rn nz z fn shape fd fu by blast
    have "\<exists>m h' n hn.
          matrix_dims T rows cols h = (Inr m, h') \<and>
          matrix_fill T rows cols v h = (Inr n, hn) \<and>
          row_size m = rows \<and> column_size m = cols \<and>
          row_size n = rows \<and> column_size n = cols \<and>
          (rows \<noteq> 0 \<and> cols \<noteq> 0 \<longrightarrow> size_m m = rows * cols \<and> size_m n = rows * cols) \<and>
          (rows = 0 \<or> cols = 0 \<longrightarrow> size_m m = max rows cols \<and> size_m n = max rows cols) \<and>
          capacity m = size_m m \<and> capacity n = size_m n \<and>
          flatten n hn = (Inr (replicate (size_m n) v), hn) \<and>
          (size_m m = 0 \<longrightarrow> m_data m = None \<and> h' = h) \<and>
          (size_m m \<noteq> 0 \<longrightarrow>
             m_data m = Some (length h) \<and>
             h' = h @ [Some (replicate (size_m m) (default_init T))]) \<and>
          (\<forall>d. default_init T = Some d \<longrightarrow>
             flatten m h' = (Inr (replicate (size_m m) d), h')) \<and>
          (default_init T = None \<and> size_m m \<noteq> 0 \<longrightarrow>
             flatten m h' = (Inl undefined_behaviour, h'))"
      by (rule exI [of _ m], rule exI [of _ h'], rule exI [of _ m], rule exI [of _ hn])
        (rule body)
    with True show ?thesis by simp
  qed
qed

text \<open>
  The constructors at \<open>2 \<times> 3\<close> and at the degenerate \<open>0 \<times> 5\<close> for \<^verbatim>\<open>int\<close>; at \<open>2 \<times> 3\<close>
  for an element type whose default constructor produces zero; and at \<open>2 \<times> 3\<close> when
  the allocator has nothing left.
\<close>

theorem dimensioned_constructors_witness:
  "(\<exists>m h' n hn.
     matrix_dims example_int 2 3 [] = (Inr m, h') \<and>
     matrix_fill example_int 2 3 7 [] = (Inr n, hn) \<and>
     size_m m = 6 \<and> size_m n = 6 \<and> capacity m = 6 \<and> capacity n = 6 \<and>
     h' = [Some [None, None, None, None, None, None]] \<and>
     flatten m h' = (Inl undefined_behaviour, h') \<and>
     flatten n hn = (Inr [7, 7, 7, 7, 7, 7], hn)) \<and>
   (\<exists>m h' n hn.
     matrix_dims example_int 0 5 [] = (Inr m, h') \<and>
     matrix_fill example_int 0 5 7 [] = (Inr n, hn) \<and>
     size_m m = 5 \<and> size_m n = 5 \<and> capacity m = 5 \<and> capacity n = 5) \<and>
   (\<exists>m h'.
     matrix_dims (example_int\<lparr>default_init := Some 0\<rparr>) 2 3 [] = (Inr m, h') \<and>
     flatten m h' = (Inr [0, 0, 0, 0, 0, 0], h')) \<and>
   matrix_dims (cpp_int exhausted) 2 3 [] = (Inl bad_alloc, []) \<and>
   matrix_fill (cpp_int exhausted) 2 3 7 [] = (Inl bad_alloc, [])"
proof -
  let ?D = "example_int\<lparr>default_init := Some 0\<rparr>"
  have n: "slot_count 2 3 = 6" "slot_count 0 5 = 5" by (simp_all add: slot_count_def)
  have f: "fits example_int (slot_count 2 3)" "fits example_int (slot_count 0 5)"
    "fits ?D (slot_count 2 3)" "fits (cpp_int exhausted) (slot_count 2 3)"
    by (simp_all add: fits_def n example_int_def cpp_int_def)
  have g: "grants example_int [] 6" "grants example_int [] 5" "grants ?D [] 6"
    "\<not> grants (cpp_int exhausted) [] 6"
    by (simp_all add: grants_def example_int_def cpp_int_def unlimited_def exhausted_def)
  have d: "default_init example_int = None" "default_init ?D = Some 0"
    by (simp_all add: example_int_def cpp_int_def)
  from dimensioned_constructors [OF f(1), of "[]" 7] n g d
  have one: "\<exists>m h' n hn.
     matrix_dims example_int 2 3 [] = (Inr m, h') \<and>
     matrix_fill example_int 2 3 7 [] = (Inr n, hn) \<and>
     size_m m = 6 \<and> size_m n = 6 \<and> capacity m = 6 \<and> capacity n = 6 \<and>
     h' = [Some [None, None, None, None, None, None]] \<and>
     flatten m h' = (Inl undefined_behaviour, h') \<and>
     flatten n hn = (Inr [7, 7, 7, 7, 7, 7], hn)"
    by (auto simp: replicate_unfold)
  from dimensioned_constructors [OF f(2), of "[]" 7] n g
  have two: "\<exists>m h' n hn.
     matrix_dims example_int 0 5 [] = (Inr m, h') \<and>
     matrix_fill example_int 0 5 7 [] = (Inr n, hn) \<and>
     size_m m = 5 \<and> size_m n = 5 \<and> capacity m = 5 \<and> capacity n = 5"
    by auto
  from dimensioned_constructors [OF f(3), of "[]" 7] n g d
  have three: "\<exists>m h'.
     matrix_dims ?D 2 3 [] = (Inr m, h') \<and>
     flatten m h' = (Inr [0, 0, 0, 0, 0, 0], h')"
    by (auto simp: replicate_unfold)
  from dimensioned_constructors [OF f(4), of "[]" 7] n g
  have four: "matrix_dims (cpp_int exhausted) 2 3 [] = (Inl bad_alloc, []) \<and>
   matrix_fill (cpp_int exhausted) 2 3 7 [] = (Inl bad_alloc, [])"
    by simp
  from one two three four show ?thesis by blast
qed

text \<open>
  Claim C7 as stated, for all \<open>rows\<close> and \<open>cols\<close>, fails in three ways.

  \<^item> \<^verbatim>\<open>matrix<int>(2, 3)\<close> has six slots and none of them holds a value: reading its
    elements is undefined.
  \<^item> For \<open>rows = 2^63\<close> and \<open>cols = 2\<close> the product wraps around to zero, so \<open>size()\<close> is
    the larger of the two, \<open>2^63\<close>, not \<open>rows * cols\<close>; the size in bytes wraps around to
    zero as well, so the buffer has no slot at all, and the constructor with a fill
    value writes outside of it.
  \<^item> Both constructors throw \<^verbatim>\<open>std::bad_alloc\<close> when the allocator refuses the buffer.
\<close>

theorem dimensioned_constructors_counterexample:
  "matrix_dims example_int 2 3 [] =
     (Inr \<lparr>m_rows = 2, m_columns = 3, m_size = 6, m_capacity = 6, m_data = Some 0\<rparr>,
      [Some [None, None, None, None, None, None]]) \<and>
   flatten \<lparr>m_rows = 2, m_columns = 3, m_size = 6, m_capacity = 6, m_data = Some 0\<rparr>
      [Some [None, None, None, None, None, None :: 32 word option]] =
     (Inl undefined_behaviour, [Some [None, None, None, None, None, None]]) \<and>
   matrix_dims example_int 9223372036854775808 2 [] =
     (Inr \<lparr>m_rows = 9223372036854775808, m_columns = 2, m_size = 9223372036854775808,
            m_capacity = 9223372036854775808, m_data = Some 0\<rparr>,
      [Some []]) \<and>
   fst (matrix_fill example_int 9223372036854775808 2 7 []) = Inl undefined_behaviour \<and>
   matrix_dims (cpp_int exhausted) 2 3 [] = (Inl bad_alloc, []) \<and>
   matrix_fill (cpp_int exhausted) 2 3 7 [] = (Inl bad_alloc, [])"
proof -
  have one: "matrix_dims example_int 2 3 [] =
     (Inr \<lparr>m_rows = 2, m_columns = 3, m_size = 6, m_capacity = 6, m_data = Some 0\<rparr>,
      [Some [None, None, None, None, None, None]])"
    by (simp add: matrix_dims_def heap_ops int_ops Let_def replicate_unfold)
  have two: "flatten \<lparr>m_rows = 2, m_columns = 3, m_size = 6, m_capacity = 6, m_data = Some 0\<rparr>
      [Some [None, None, None, None, None, None :: 32 word option]] =
     (Inl undefined_behaviour, [Some [None, None, None, None, None, None]])"
    by (simp add: heap_ops)
  have three: "matrix_dims example_int 9223372036854775808 2 [] =
     (Inr \<lparr>m_rows = 9223372036854775808, m_columns = 2, m_size = 9223372036854775808,
            m_capacity = 9223372036854775808, m_data = Some 0\<rparr>,
      [Some []])"
    by (simp add: matrix_dims_def heap_ops int_ops Let_def)
  have four: "fst (matrix_fill example_int 9223372036854775808 2 7 []) =
      Inl undefined_behaviour"
    by (simp add: matrix_fill_def heap_ops int_ops Let_def)
  have five: "matrix_dims (cpp_int exhausted) 2 3 [] = (Inl bad_alloc, [])"
    "matrix_fill (cpp_int exhausted) 2 3 7 [] = (Inl bad_alloc, [])"
    by (simp_all add: matrix_dims_def matrix_fill_def heap_ops int_ops Let_def)
  from one two three four five show ?thesis by simp
qed

section \<open>Arithmetic of two matrices\<close>

lemma binary_on_fresh_result:
  assumes fa: "flatten a h = (Inr xs, h)" and fb: "flatten b h = (Inr ys, h)"
    and ia: "invariant_I1 a" and ib: "invariant_I1 b" and ft: "fits T (size_m a)"
    and d: "dimensions a = dimensions b"
  shows "if \<not> grants T h (size_m a)
         then then_do (matrix_dims T (row_size a) (column_size a)) (\<lambda>result.
                then_do (transform2 (m_data a) (m_size a) (m_data b) (m_data result) f)
                  (\<lambda>_. return_val result)) h = (Inl bad_alloc, h)
         else
           (case apply_binary f xs ys of
              None \<Rightarrow>
                fst (then_do (matrix_dims T (row_size a) (column_size a)) (\<lambda>result.
                  then_do (transform2 (m_data a) (m_size a) (m_data b) (m_data result) f)
                    (\<lambda>_. return_val result)) h) = Inl undefined_behaviour
            | Some zs \<Rightarrow>
                (\<exists>r h'.
                   then_do (matrix_dims T (row_size a) (column_size a)) (\<lambda>result.
                     then_do (transform2 (m_data a) (m_size a) (m_data b) (m_data result) f)
                       (\<lambda>_. return_val result)) h = (Inr r, h') \<and>
                   row_size r = row_size a \<and> column_size r = column_size a \<and>
                   flatten r h' = (Inr zs, h') \<and> length zs = length xs \<and>
                   (\<forall>i. i < length xs \<longrightarrow> f (xs ! i) (ys ! i) = Some (zs ! i)) \<and>
                   flatten a h' = (Inr xs, h') \<and> flatten b h' = (Inr ys, h') \<and>
                   take (length h) h' = h \<and>
                   (m_data r = None \<or> (\<exists>p. m_data r = Some p \<and> block_at h p = None))))"
proof -
  let ?n = "m_size a"
  let ?run = "then_do (matrix_dims T (row_size a) (column_size a)) (\<lambda>result.
                then_do (transform2 (m_data a) (m_size a) (m_data b) (m_data result) f)
                  (\<lambda>_. return_val result)) h"
  have ft': "fits T ?n" using ft by (simp add: size_m_def)
  have sb: "m_size b = ?n" by (rule same_dimensions_same_size [OF ia ib d])
  have la: "load_n (m_data a) ?n h = (Inr xs, h)" using fa by (simp add: flatten_def)
  have lb: "load_n (m_data b) ?n h = (Inr ys, h)" using fb sb by (simp add: flatten_def)
  have lx: "length xs = ?n" and ly: "length ys = ?n"
    using la lb by (auto dest!: load_n_Inr_cases)
  have sz: "dims_size (row_size a) (column_size a) = ?n"
    using I1_dims_size [OF ia ft'] by (simp add: row_size_def column_size_def)
  note run = fresh_transform2 [OF la lb ft' sz order_refl, of f]
  show ?thesis
  proof (cases "grants T h (size_m a)")
    case False
    with run show ?thesis by (simp add: grants_def size_m_def)
  next
    case True
    then have g: "\<not> (?n \<noteq> 0 \<and> \<not> operator_new T h (?n * sizeof_value T))"
      by (auto simp: grants_def size_m_def)
    show ?thesis
    proof (cases "apply_binary f xs ys")
      case None
      with run g True show ?thesis by simp
    next
      case (Some zs)
      define r where "r = \<lparr>m_rows = row_size a, m_columns = column_size a, m_size = ?n,
         m_capacity = ?n, m_data = (if ?n = 0 then None else Some (length h))\<rparr>"
      define h' where "h' = (if ?n = 0 then h else h @ [Some (map Some zs)])"
      have eq: "length xs = length ys" using lx ly by simp
      note zs = apply_binary_Some [OF eq Some]
      have lz: "length zs = ?n" using zs lx by simp
      have res: "?run = (Inr r, h')"
        using run g Some by (simp add: r_def h'_def)
      have post: "flatten r h' = (Inr zs, h') \<and> take (length h) h' = h \<and>
           (m_data r = None \<or> (\<exists>p. m_data r = Some p \<and> block_at h p = None \<and>
              block_at h' p = Some (map Some zs)))"
        by (rule fresh_result_post [OF r_def h'_def lz])
      have fa': "flatten a h' = (Inr xs, h')"
        using load_n_append [OF la] la by (auto simp: flatten_def h'_def)
      have fb': "flatten b h' = (Inr ys, h')"
        using load_n_append [OF lb] lb sb by (auto simp: flatten_def h'_def)
      have dims: "row_size r = row_size a" "column_size r = column_size a"
        by (simp_all add: r_def row_size_def column_size_def)
      from res post fa' fb' dims zs True Some show ?thesis
        by simp blast
    qed
  qed
qed

text \<open>
  Claim C4, as amended.  Let \<open>a\<close> and \<open>b\<close> be matrices whose elements can be read, with
  the flat row-major sequences \<open>xs\<close> and \<open>ys\<close>, whose size is the size that invariant I1
  gives for their dimensions, and whose buffer has a size in bytes that \<^verbatim>\<open>std::size_t\<close>
  holds.  Each of \<^verbatim>\<open>add\<close>, \<^verbatim>\<open>sub\<close>, \<^verbatim>\<open>mul\<close> and \<^verbatim>\<open>div\<close>, with the operator \<open>f\<close> of the
  element type, behaves as follows.

  \<^item> If the dimensions of \<open>a\<close> and \<open>b\<close> differ it throws \<^verbatim>\<open>std::invalid_argument\<close>
    (\<^verbatim>\<open>DimensionMismatchError\<close>) with the message of the operation, and the heap, so
    both operands, is unchanged.
  \<^item> Otherwise, if the allocator refuses the buffer of the result, it throws
    \<^verbatim>\<open>std::bad_alloc\<close> and the heap is unchanged.
  \<^item> Otherwise, if \<open>f\<close> is undefined at the elements of some offset (for \<^verbatim>\<open>int\<close>: an
    overflow, a zero divisor), the behaviour of the call is undefined.
  \<^item> Otherwise it returns a matrix of the same dimensions in a block that was not
    allocated before, whose flat sequence \<open>zs\<close> has the length of \<open>xs\<close> and holds at
    every offset \<open>i\<close> the value of \<open>f\<close> at the elements of \<open>xs\<close> and \<open>ys\<close> at offset \<open>i\<close>;
    the operands read as before, and the heap has only grown.
\<close>

theorem matrix_arithmetic:
  assumes "flatten a h = (Inr xs, h)" and "flatten b h = (Inr ys, h)"
    and "invariant_I1 a" and "invariant_I1 b" and "fits T (size_m a)"
    and "(opn, f, msg) \<in>
           {(add_matrix, plus_op T, ''In matrix::add - dimensions do not match''),
            (sub_matrix, minus_op T, ''In matrix::sub - dimensions do not match''),
            (mul_matrix, multiplies_op T, ''In matrix::mult - dimensions do not match''),
            (div_matrix, divides_op T, ''In matrix::div - dimensions do not match'')}"
  shows "if dimensions a \<noteq> dimensions b
         then opn T a b h = (Inl (invalid_argument msg), h)
         else if \<not> grants T h (size_m a)
         then opn T a b h = (Inl bad_alloc, h)
         else
           (case apply_binary f xs ys of
              None \<Rightarrow> fst (opn T a b h) = Inl undefined_behaviour
            | Some zs \<Rightarrow>
                (\<exists>r h'. opn T a b h = (Inr r, h') \<and>
                   row_size r = row_size a \<and> column_size r = column_size a \<and>
                   flatten r h' = (Inr zs, h') \<and> length zs = length xs \<and>
                   (\<forall>i. i < length xs \<longrightarrow> f (xs ! i) (ys ! i) = Some (zs ! i)) \<and>
                   flatten a h' = (Inr xs, h') \<and> flatten b h' = (Inr ys, h') \<and>
                   take (length h) h' = h \<and>
                   (m_data r = None \<or> (\<exists>p. m_data r = Some p \<and> block_at h p = None))))"
proof (cases "dimensions a = dimensions b")
  case False
  with assms(6) show ?thesis
    by (auto simp: add_matrix_def sub_matrix_def mul_matrix_def div_matrix_def throw_def)
next
  case True
  note post = binary_on_fresh_result [OF assms(1-5) True]
  from assms(6) consider
      "opn = add_matrix" "f = plus_op T"
    | "opn = sub_matrix" "f = minus_op T"
    | "opn = mul_matrix" "f = multiplies_op T"
    | "opn = div_matrix" "f = divides_op T"
    by auto
  then have eq: "opn T a b h =
      then_do (matrix_dims T (row_size a) (column_size a)) (\<lambda>result.
        then_do (transform2 (m_data a) (m_size a) (m_data b) (m_data result) f)
          (\<lambda>_. return_val result)) h"
    using True
    by cases (simp_all add: add_matrix_def sub_matrix_def mul_matrix_def div_matrix_def)
  from True have nd: "\<not> dimensions a \<noteq> dimensions b" by simp
  show ?thesis
    unfolding eq if_not_P [OF nd] by (rule post)
qed

text \<open>
  \<open>A + B\<close>, \<open>A * C\<close> with \<open>C\<close> of other dimensions, \<open>A / Z\<close> with zeros in \<open>Z\<close>, and
  \<open>A + B\<close> when the allocator has nothing left.
\<close>

theorem matrix_arithmetic_witness:
  "(\<exists>r h'. add_matrix example_int example_A example_B example_heap = (Inr r, h') \<and>
      row_size r = 2 \<and> column_size r = 2 \<and> flatten r h' = (Inr [6, 8, 10, 12], h')) \<and>
   mul_matrix example_int example_A example_C example_heap =
     (Inl (invalid_argument ''In matrix::mult - dimensions do not match''), example_heap) \<and>
   fst (div_matrix example_int example_A example_Z example_heap) = Inl undefined_behaviour \<and>
   add_matrix (cpp_int exhausted) example_A example_B example_heap = (Inl bad_alloc, example_heap)"
proof -
  let ?T = "example_int"
  let ?E = "cpp_int exhausted"
  have add: "(add_matrix, plus_op T, ''In matrix::add - dimensions do not match'') \<in>
           {(add_matrix, plus_op T, ''In matrix::add - dimensions do not match''),
            (sub_matrix, minus_op T, ''In matrix::sub - dimensions do not match''),
            (mul_matrix, multiplies_op T, ''In matrix::mult - dimensions do not match''),
            (div_matrix, divides_op T, ''In matrix::div - dimensions do not match'')}"
    for T :: "32 word matrix_type"
    by simp
  have mul: "(mul_matrix, multiplies_op ?T, ''In matrix::mult - dimensions do not match'') \<in>
           {(add_matrix, plus_op ?T, ''In matrix::add - dimensions do not match''),
            (sub_matrix, minus_op ?T, ''In matrix::sub - dimensions do not match''),
            (mul_matrix, multiplies_op ?T, ''In matrix::mult - dimensions do not match''),
            (div_matrix, divides_op ?T, ''In matrix::div - dimensions do not match'')}"
    by simp
  have div: "(div_matrix, divides_op ?T, ''In matrix::div - dimensions do not match'') \<in>
           {(add_matrix, plus_op ?T, ''In matrix::add - dimensions do not match''),
            (sub_matrix, minus_op ?T, ''In matrix::sub - dimensions do not match''),
            (mul_matrix, multiplies_op ?T, ''In matrix::mult - dimensions do not match''),
            (div_matrix, divides_op ?T, ''In matrix::div - dimensions do not match'')}"
    by simp
  have same: "dimensions example_A = dimensions example_B"
    "dimensions example_A = dimensions example_Z"
    and differ: "dimensions example_A \<noteq> dimensions example_C"
    by (simp_all add: dimensions_def example_A_def example_B_def example_C_def example_Z_def)
  have rows: "row_size example_A = 2" "column_size example_A = 2"
    by (simp_all add: row_size_def column_size_def example_A_def)
  have sums: "apply_binary (plus_op ?T) [1, 2, 3, 4] [5, 6, 7, 8] = Some [6, 8, 10, 12]"
    "apply_binary (plus_op ?E) [1, 2, 3, 4] [5, 6, 7, 8] = Some [6, 8, 10, 12]"
    by (simp_all add: example_int_def cpp_int_examples)
  have quot: "apply_binary (divides_op ?T) [1, 2, 3, 4] [0, 1, 2, 0] = None"
    by (simp add: example_int_def cpp_int_examples)
  from matrix_arithmetic [OF flatten_example_A flatten_example_B invariant_I1_examples(1,2)
      fits_examples(1) add]
    same rows sums grants_examples(1)
  have one: "\<exists>r h'. add_matrix ?T example_A example_B example_heap = (Inr r, h') \<and>
      row_size r = 2 \<and> column_size r = 2 \<and> flatten r h' = (Inr [6, 8, 10, 12], h')"
    by auto
  from matrix_arithmetic [OF flatten_example_A flatten_example_C invariant_I1_examples(1,3)
      fits_examples(1) mul]
    differ
  have two: "mul_matrix ?T example_A example_C example_heap =
     (Inl (invalid_argument ''In matrix::mult - dimensions do not match''), example_heap)"
    by simp
  from matrix_arithmetic [OF flatten_example_A flatten_example_Z invariant_I1_examples(1,4)
      fits_examples(1) div]
    same quot grants_examples(1)
  have three: "fst (div_matrix ?T example_A example_Z example_heap) = Inl undefined_behaviour"
    by simp
  from matrix_arithmetic [OF flatten_example_A flatten_example_B invariant_I1_examples(1,2)
      fits_examples(4) add]
    same grants_examples(2)
  have four: "add_matrix ?E example_A example_B example_heap = (Inl bad_alloc, example_heap)"
    by simp
  from one two three four show ?thesis by blast
qed

text \<open>
  Claim C4 as stated, for every pair of matrices, fails in three ways.

  \<^item> \<^verbatim>\<open>A.reserve(3, 3)\<close> turns \<open>A\<close> into \<open>G\<close>, with three rows and three columns but the
    four elements of \<open>A\<close>.  \<open>G + G\<close> is a matrix of size nine whose buffer holds the four
    sums and five slots that were never written: not every flat element of the result
    is the operator applied to elements of the operands.
  \<^item> \<open>A / Z\<close> and \<open>M + M\<close> (\<open>M\<close> holds \<^verbatim>\<open>INT_MIN\<close>) have the same dimensions on both
    sides, and neither returns a result: the division by zero and the overflow are
    undefined.
  \<^item> \<open>A + B\<close> throws \<^verbatim>\<open>std::bad_alloc\<close> when the allocator refuses the result.
\<close>

theorem matrix_arithmetic_counterexample:
  "reserve example_int 3 3 example_A example_heap = (Inr example_G, example_heap_G) \<and>
   row_size example_G = 3 \<and> column_size example_G = 3 \<and> size_m example_G = 4 \<and>
   flatten example_G example_heap_G = (Inr [1, 2, 3, 4], example_heap_G) \<and>
   add_matrix example_int example_G example_G example_heap_G =
     (Inr \<lparr>m_rows = 3, m_columns = 3, m_size = 9, m_capacity = 9, m_data = Some 7\<rparr>,
      example_heap_G @
        [Some [Some 2, Some 4, Some 6, Some 8, None, None, None, None, None]]) \<and>
   fst (div_matrix example_int example_A example_Z example_heap) = Inl undefined_behaviour \<and>
   fst (add_matrix example_int example_M example_M example_heap) = Inl undefined_behaviour \<and>
   add_matrix (cpp_int exhausted) example_A example_B example_heap =
     (Inl bad_alloc, example_heap)"
  by (simp add: reserve_def add_matrix_def div_matrix_def matrix_dims_def heap_ops int_ops
      example_A_def example_B_def example_Z_def example_M_def example_G_def example_heap_def
      example_heap_G_def Let_def replicate_unfold)

section \<open>Arithmetic of a matrix and a scalar\<close>

lemma unary_on_fresh_result:
  assumes fa: "flatten a h = (Inr xs, h)"
    and ia: "invariant_I1 a" and ft: "fits T (size_m a)"
  shows "if \<not> grants T h (size_m a)
         then then_do (matrix_dims T (row_size a) (column_size a)) (\<lambda>result.
                then_do (transform1 (m_data a) (m_size a) (m_data result) g)
                  (\<lambda>_. return_val result)) h = (Inl bad_alloc, h)
         else
           (case apply_unary g xs of
              None \<Rightarrow>
                fst (then_do (matrix_dims T (row_size a) (column_size a)) (\<lambda>result.
                  then_do (transform1 (m_data a) (m_size a) (m_data result) g)
                    (\<lambda>_. return_val result)) h) = Inl undefined_behaviour
            | Some zs \<Rightarrow>
                (\<exists>r h'.
                   then_do (matrix_dims T (row_size a) (column_size a)) (\<lambda>result.
                     then_do (transform1 (m_data a) (m_size a) (m_data result) g)
                       (\<lambda>_. return_val result)) h = (Inr r, h') \<and>
                   row_size r = row_size a \<and> column_size r = column_size a \<and>
                   flatten r h' = (Inr zs, h') \<and> length zs = length xs \<and>
                   (\<forall>i. i < length xs \<longrightarrow> g (xs ! i) = Some (zs ! i)) \<and>
                   flatten a h' = (Inr xs, h') \<and>
                   take (length h) h' = h \<and>
                   (m_data r = None \<or> (\<exists>p. m_data r = Some p \<and> block_at h p = None))))"
proof -
  let ?n = "m_size a"
  let ?run = "then_do (matrix_dims T (row_size a) (column_size a)) (\<lambda>result.
                then_do (transform1 (m_data a) (m_size a) (m_data result) g)
                  (\<lambda>_. return_val result)) h"
  have ft': "fits T ?n" using ft by (simp add: size_m_def)
  have la: "load_n (m_data a) ?n h = (Inr xs, h)" using fa by (simp add: flatten_def)
  have lx: "length xs = ?n"
    using la by (auto dest!: load_n_Inr_cases)
  have sz: "dims_size (row_size a) (column_size a) = ?n"
    using I1_dims_size [OF ia ft'] by (simp add: row_size_def column_size_def)
  note run = fresh_transform1 [OF la ft' sz order_refl, of g]
  show ?thesis
  proof (cases "grants T h (size_m a)")
    case False
    with run show ?thesis by (simp add: grants_def size_m_def)
  next
    case True
    then have g: "\<not> (?n \<noteq> 0 \<and> \<not> operator_new T h (?n * sizeof_value T))"
      by (auto simp: grants_def size_m_def)
    show ?thesis
    proof (cases "apply_unary g xs")
      case None
      with run g True show ?thesis by simp
    next
      case (Some zs)
      define r where "r = \<lparr>m_rows = row_size a, m_columns = column_size a, m_size = ?n,
         m_capacity = ?n, m_data = (if ?n = 0 then None else Some (length h))\<rparr>"
      define h' where "h' = (if ?n = 0 then h else h @ [Some (map Some zs)])"
      note zs = apply_unary_Some [OF Some]
      have lz: "length zs = ?n" using zs lx by simp
      have res: "?run = (Inr r, h')"
        using run g Some by (simp add: r_def h'_def)
      have post: "flatten r h' = (Inr zs, h') \<and> take (length h) h' = h \<and>
           (m_data r = None \<or> (\<exists>p. m_data r = Some p \<and> block_at h p = None \<and>
              block_at h' p = Some (map Some zs)))"
        by (rule fresh_result_post [OF r_def h'_def lz])
      have fa': "flatten a h' = (Inr xs, h')"
        using load_n_append [OF la] la by (auto simp: flatten_def h'_def)
      have dims: "row_size r = row_size a" "column_size r = column_size a"
        by (simp_all add: r_def row_size_def column_size_def)
      from res post fa' dims zs True Some show ?thesis
        by simp blast
    qed
  qed
qed

text \<open>
  The quotient of two \<^verbatim>\<open>int\<close> values, where it is defined, is the quotient truncated
  towards zero: the integer \<open>q\<close> with \<open>\<bar>q * y\<bar> \<le> \<bar>x\<bar>\<close> and \<open>\<bar>x - q * y\<bar> < \<bar>y\<bar>\<close>.
\<close>

lemma sint_int_result:
  assumes "int_result i = Some q"
  shows "sint q = i"
proof -
  from assms have r: "- (2 ^ 31) \<le> i" "i < 2 ^ 31" and q: "q = word_of_int i"
    by (auto simp: int_result_def split: if_splits)
  show ?thesis
    unfolding q using r by (simp add: sint_sbintrunc' signed_take_bit_int_eq_self_iff)
qed

lemma sdiv_truncates:
  fixes x y :: int
  assumes "y \<noteq> 0"
  shows "\<bar>(x sdiv y) * y\<bar> \<le> \<bar>x\<bar> \<and> \<bar>x - (x sdiv y) * y\<bar> < \<bar>y\<bar>"
proof -
  define a where "a = \<bar>x\<bar>"
  define b where "b = \<bar>y\<bar>"
  have b: "0 < b" using assms by (simp add: b_def)
  have a: "0 \<le> a" by (simp add: a_def)
  have q: "(x sdiv y) * y = sgn x * ((a div b) * b)"
  proof -
    have "(x sdiv y) * y = sgn x * sgn y * (a div b) * y"
      by (simp add: signed_divide_int_def a_def b_def)
    also have "\<dots> = sgn x * ((a div b) * (sgn y * y))" by (simp add: algebra_simps)
    also have "sgn y * y = b" by (simp add: b_def abs_sgn mult.commute)
    finally show ?thesis .
  qed
  have le: "(a div b) * b \<le> a"
  proof -
    have "a = (a div b) * b + a mod b" by simp
    moreover have "0 \<le> a mod b" using b by simp
    ultimately show ?thesis by linarith
  qed
  have nn: "0 \<le> (a div b) * b" using a b by (simp add: pos_imp_zdiv_nonneg_iff)
  have x: "x = sgn x * a" by (simp add: a_def mult_sgn_abs)
  have one: "\<bar>(x sdiv y) * y\<bar> \<le> \<bar>x\<bar>"
  proof -
    have "\<bar>(x sdiv y) * y\<bar> = \<bar>sgn x\<bar> * \<bar>(a div b) * b\<bar>"
      unfolding q by (rule abs_mult)
    also have "\<bar>(a div b) * b\<bar> = (a div b) * b" using nn by (rule abs_of_nonneg)
    finally have "\<bar>(x sdiv y) * y\<bar> = \<bar>sgn x\<bar> * ((a div b) * b)" .
    also have "\<dots> \<le> \<bar>sgn x\<bar> * a" using le by (simp add: mult_left_mono)
    also have "\<dots> = \<bar>x\<bar>" by (simp add: a_def abs_sgn_eq)
    finally show ?thesis .
  qed
  have "x - (x sdiv y) * y = sgn x * (a - (a div b) * b)"
    unfolding q using x by (metis right_diff_distrib)
  also have "a - (a div b) * b = a mod b" by (simp add: minus_div_mult_eq_mod)
  finally have "\<bar>x - (x sdiv y) * y\<bar> = \<bar>sgn x\<bar> * \<bar>a mod b\<bar>" by (simp add: abs_mult)
  also have "\<dots> \<le> \<bar>a mod b\<bar>" by (simp add: abs_sgn_eq)
  also have "\<dots> < b" using b by (simp add: abs_mod_less)
  finally have two: "\<bar>x - (x sdiv y) * y\<bar> < \<bar>y\<bar>" by (simp add: b_def)
  from one two show ?thesis by simp
qed

lemma int_division_truncates:
  assumes "divides_op (cpp_int new) x y = Some q"
  shows "y \<noteq> 0 \<and> \<bar>sint q * sint y\<bar> \<le> \<bar>sint x\<bar> \<and> \<bar>sint x - sint q * sint y\<bar> < \<bar>sint y\<bar>"
proof -
  from assms have y: "y \<noteq> 0" and r: "int_result (sint x sdiv sint y) = Some q"
    by (auto simp: cpp_int_def split: if_splits)
  from y have sy: "sint y \<noteq> 0" by (simp add: signed_eq_0_iff)
  from sint_int_result [OF r] sdiv_truncates [OF sy, of "sint x"] y show ?thesis by simp
qed

text \<open>
  Claim C5, as amended.  Let \<open>a\<close> be a matrix whose elements can be read, with the flat
  sequence \<open>xs\<close>, whose size is the size that invariant I1 gives for its dimensions, and
  whose buffer has a size in bytes that \<^verbatim>\<open>std::size_t\<close> holds; let \<open>s\<close> be a scalar.

  \<^item> \<^verbatim>\<open>mul(s)\<close> throws \<^verbatim>\<open>std::invalid_argument\<close> with the message of the empty
    operand (\<^verbatim>\<open>EmptyOperandError\<close>) when \<open>a\<close> is empty, and only then.
  \<^item> \<^verbatim>\<open>div(s)\<close> throws the exception of the empty operand when \<open>a\<close> is empty, and
    otherwise \<^verbatim>\<open>std::invalid_argument\<close> with the message ``scalar is zero''
    (\<^verbatim>\<open>DivideByZeroError\<close>) when \<open>s\<close> equals zero.
  \<^item> Otherwise either operation throws \<^verbatim>\<open>std::bad_alloc\<close> when the allocator refuses
    the buffer of the result; has undefined behaviour when the operator of the element
    type is undefined at some element and \<open>s\<close>; and else returns a matrix of the same
    dimensions in a block that was not allocated before, whose flat sequence holds at
    every offset the product (the quotient) of the element of \<open>a\<close> at that offset and
    \<open>s\<close>.  The operand reads as before, and the heap has only grown.
  \<^item> Where the quotient \<open>q\<close> of two \<^verbatim>\<open>int\<close> values \<open>x\<close> and \<open>y\<close> is defined, \<open>y\<close> is not
    zero and \<open>q\<close> is the quotient truncated towards zero: \<open>\<bar>q * y\<bar> \<le> \<bar>x\<bar>\<close> and
    \<open>\<bar>x - q * y\<bar> < \<bar>y\<bar>\<close>.
\<close>

theorem scalar_arithmetic:
  fixes T :: "('a::zero) matrix_type"
  assumes "flatten a h = (Inr xs, h)" and "invariant_I1 a" and "fits T (size_m a)"
  shows
    "(if empty_m a
      then mul_scalar T a s h =
        (Inl (invalid_argument ''In matrix::mul - scalar multiplication on empty matrix''), h)
      else if \<not> grants T h (size_m a)
      then mul_scalar T a s h = (Inl bad_alloc, h)
      else
        (case apply_unary (\<lambda>elem. multiplies_op T elem s) xs of
           None \<Rightarrow> fst (mul_scalar T a s h) = Inl undefined_behaviour
         | Some zs \<Rightarrow>
             (\<exists>r h'. mul_scalar T a s h = (Inr r, h') \<and>
                row_size r = row_size a \<and> column_size r = column_size a \<and>
                flatten r h' = (Inr zs, h') \<and> length zs = length xs \<and>
                (\<forall>i. i < length xs \<longrightarrow> multiplies_op T (xs ! i) s = Some (zs ! i)) \<and>
                flatten a h' = (Inr xs, h') \<and>
                take (length h) h' = h \<and>
                (m_data r = None \<or> (\<exists>p. m_data r = Some p \<and> block_at h p = None))))) \<and>
     (if empty_m a
      then div_scalar T a s h =
        (Inl (invalid_argument ''In matrix::div - scalar division on empty matrix''), h)
      else if s = 0
      then div_scalar T a s h = (Inl (invalid_argument ''In matrix::div - scalar is zero''), h)
      else if \<not> grants T h (size_m a)
      then div_scalar T a s h = (Inl bad_alloc, h)
      else
        (case apply_unary (\<lambda>elem. divides_op T elem s) xs of
           None \<Rightarrow> fst (div_scalar T a s h) = Inl undefined_behaviour
         | Some zs \<Rightarrow>
             (\<exists>r h'. div_scalar T a s h = (Inr r, h') \<and>
                row_size r = row_size a \<and> column_size r = column_size a \<and>
                flatten r h' = (Inr zs, h') \<and> length zs = length xs \<and>
                (\<forall>i. i < length xs \<longrightarrow> divides_op T (xs ! i) s = Some (zs ! i)) \<and>
                flatten a h' = (Inr xs, h') \<and>
                take (length h) h' = h \<and>
                (m_data r = None \<or> (\<exists>p. m_data r = Some p \<and> block_at h p = None))))) \<and>
     (\<forall>new x y q. divides_op (cpp_int new) x y = Some q \<longrightarrow>
        y \<noteq> 0 \<and> \<bar>sint q * sint y\<bar> \<le> \<bar>sint x\<bar> \<and> \<bar>sint x - sint q * sint y\<bar> < \<bar>sint y\<bar>)"
proof -
  let ?mul = "\<lambda>elem. multiplies_op T elem s"
  let ?div = "\<lambda>elem. divides_op T elem s"
  have one: "if empty_m a
      then mul_scalar T a s h =
        (Inl (invalid_argument ''In matrix::mul - scalar multiplication on empty matrix''), h)
      else if \<not> grants T h (size_m a)
      then mul_scalar T a s h = (Inl bad_alloc, h)
      else
        (case apply_unary ?mul xs of
           None \<Rightarrow> fst (mul_scalar T a s h) = Inl undefined_behaviour
         | Some zs \<Rightarrow>
             (\<exists>r h'. mul_scalar T a s h = (Inr r, h') \<and>
                row_size r = row_size a \<and> column_size r = column_size a \<and>
                flatten r h' = (Inr zs, h') \<and> length zs = length xs \<and>
                (\<forall>i. i < length xs \<longrightarrow> multiplies_op T (xs ! i) s = Some (zs ! i)) \<and>
                flatten a h' = (Inr xs, h') \<and>
                take (length h) h' = h \<and>
                (m_data r = None \<or> (\<exists>p. m_data r = Some p \<and> block_at h p = None))))"
  proof (cases "empty_m a")
    case True
    then show ?thesis by (simp add: mul_scalar_def throw_def)
  next
    case False
    then have eq: "mul_scalar T a s h =
        then_do (matrix_dims T (row_size a) (column_size a)) (\<lambda>result.
          then_do (transform1 (m_data a) (m_size a) (m_data result) ?mul)
            (\<lambda>_. return_val result)) h"
      by (simp add: mul_scalar_def)
    show ?thesis
      unfolding eq if_not_P [OF False] by (rule unary_on_fresh_result [OF assms])
  qed
  have two: "if empty_m a
      then div_scalar T a s h =
        (Inl (invalid_argument ''In matrix::div - scalar division on empty matrix''), h)
      else if s = 0
      then div_scalar T a s h = (Inl (invalid_argument ''In matrix::div - scalar is zero''), h)
      else if \<not> grants T h (size_m a)
      then div_scalar T a s h = (Inl bad_alloc, h)
      else
        (case apply_unary ?div xs of
           None \<Rightarrow> fst (div_scalar T a s h) = Inl undefined_behaviour
         | Some zs \<Rightarrow>
             (\<exists>r h'. div_scalar T a s h = (Inr r, h') \<and>
                row_size r = row_size a \<and> column_size r = column_size a \<and>
                flatten r h' = (Inr zs, h') \<and> length zs = length xs \<and>
                (\<forall>i. i < length xs \<longrightarrow> divides_op T (xs ! i) s = Some (zs ! i)) \<and>
                flatten a h' = (Inr xs, h') \<and>
                take (length h) h' = h \<and>
                (m_data r = None \<or> (\<exists>p. m_data r = Some p \<and> block_at h p = None))))"
  proof (cases "empty_m a")
    case True
    then show ?thesis by (simp add: div_scalar_def throw_def)
  next
    case False
    note ne = this
    show ?thesis
    proof (cases "s = 0")
      case True
      with ne show ?thesis by (simp add: div_scalar_def throw_def)
    next
      case False
      with ne have eq: "div_scalar T a s h =
          then_do (matrix_dims T (row_size a) (column_size a)) (\<lambda>result.
            then_do (transform1 (m_data a) (m_size a) (m_data result) ?div)
              (\<lambda>_. return_val result)) h"
        by (simp add: div_scalar_def)
      show ?thesis
        unfolding eq if_not_P [OF ne] if_not_P [OF False]
        by (rule unary_on_fresh_result [OF assms])
    qed
  qed
  have three: "\<forall>new x y q. divides_op (cpp_int new) x y = Some q \<longrightarrow>
        y \<noteq> 0 \<and> \<bar>sint q * sint y\<bar> \<le> \<bar>sint x\<bar> \<and> \<bar>sint x - sint q * sint y\<bar> < \<bar>sint y\<bar>"
    using int_division_truncates by blast
  from one two three show ?thesis by (rule conjI [OF _ conjI])
qed

text \<open>
  \<open>A * 2\<close>; \<open>C / 2\<close> with \<open>C = [[7, -7]]\<close>, which gives \<open>[[3, -3]]\<close>; \<open>A / 0\<close>; the empty
  matrix times two and divided by zero; \<open>M / -1\<close> with \<open>M = [[INT_MIN]]\<close>; and \<open>A * 2\<close>
  when the allocator has nothing left.
\<close>

theorem scalar_arithmetic_witness:
  "(\<exists>r h'. mul_scalar example_int example_A 2 example_heap = (Inr r, h') \<and>
      row_size r = 2 \<and> column_size r = 2 \<and> flatten r h' = (Inr [2, 4, 6, 8], h')) \<and>
   (\<exists>r h'. div_scalar example_int example_C 2 example_heap = (Inr r, h') \<and>
      row_size r = 1 \<and> column_size r = 2 \<and> flatten r h' = (Inr [3, - 3], h')) \<and>
   div_scalar example_int example_A 0 example_heap =
     (Inl (invalid_argument ''In matrix::div - scalar is zero''), example_heap) \<and>
   mul_scalar example_int matrix_default 2 example_heap =
     (Inl (invalid_argument ''In matrix::mul - scalar multiplication on empty matrix''),
      example_heap) \<and>
   div_scalar example_int matrix_default 0 example_heap =
     (Inl (invalid_argument ''In matrix::div - scalar division on empty matrix''),
      example_heap) \<and>
   fst (div_scalar example_int example_M (- 1) example_heap) = Inl undefined_behaviour \<and>
   mul_scalar (cpp_int exhausted) example_A 2 example_heap = (Inl bad_alloc, example_heap)"
proof -
  let ?T = "example_int"
  let ?E = "cpp_int exhausted"
  have ne: "\<not> empty_m example_A" "\<not> empty_m example_C" "\<not> empty_m example_M"
    "empty_m matrix_default"
    by (simp_all add: empty_m_def example_A_def example_C_def example_M_def matrix_default_def)
  have dims: "row_size example_A = 2" "column_size example_A = 2"
    "row_size example_C = 1" "column_size example_C = 2"
    by (simp_all add: row_size_def column_size_def example_A_def example_C_def)
  have prod: "apply_unary (\<lambda>elem. multiplies_op ?T elem 2) [1, 2, 3, 4] = Some [2, 4, 6, 8]"
    and quot: "apply_unary (\<lambda>elem. divides_op ?T elem 2) [7, - 7] = Some [3, - 3]"
    and over: "apply_unary (\<lambda>elem. divides_op ?T elem (- 1)) [- 2147483648] = None"
    by (simp_all add: int_ops)
  from scalar_arithmetic [where s = "2", OF flatten_example_A invariant_I1_examples(1) fits_examples(1)]
    ne dims prod grants_examples(1)
  have one: "\<exists>r h'. mul_scalar ?T example_A 2 example_heap = (Inr r, h') \<and>
      row_size r = 2 \<and> column_size r = 2 \<and> flatten r h' = (Inr [2, 4, 6, 8], h')"
    by auto
  from scalar_arithmetic [where s = "2", OF flatten_example_C invariant_I1_examples(3) fits_examples(2)]
    ne dims quot grants_examples(1)
  have two: "\<exists>r h'. div_scalar ?T example_C 2 example_heap = (Inr r, h') \<and>
      row_size r = 1 \<and> column_size r = 2 \<and> flatten r h' = (Inr [3, - 3], h')"
    by auto
  from scalar_arithmetic [where s = "0", OF flatten_example_A invariant_I1_examples(1) fits_examples(1)] ne
  have three: "div_scalar ?T example_A 0 example_heap =
     (Inl (invalid_argument ''In matrix::div - scalar is zero''), example_heap)"
    by simp
  from scalar_arithmetic [where h = example_heap and s = 2,
      OF flatten_default invariant_I1_default fits_default] ne
  have four: "mul_scalar ?T matrix_default 2 example_heap =
     (Inl (invalid_argument ''In matrix::mul - scalar multiplication on empty matrix''),
      example_heap)"
    by simp
  from scalar_arithmetic [where h = example_heap and s = 0,
      OF flatten_default invariant_I1_default fits_default] ne
  have five: "div_scalar ?T matrix_default 0 example_heap =
     (Inl (invalid_argument ''In matrix::div - scalar division on empty matrix''),
      example_heap)"
    by simp
  from scalar_arithmetic [where s = "- 1", OF flatten_example_M invariant_I1_examples(6) fits_examples(3)] ne over grants_examples(1)
  have six: "fst (div_scalar ?T example_M (- 1) example_heap) = Inl undefined_behaviour"
    by simp
  from scalar_arithmetic [where s = "2", OF flatten_example_A invariant_I1_examples(1) fits_examples(4)] ne grants_examples(2)
  have seven: "mul_scalar ?E example_A 2 example_heap = (Inl bad_alloc, example_heap)"
    by simp
  from one two three four five six seven show ?thesis by blast
qed

text \<open>
  Claim C5 as stated, for every matrix and scalar, fails in three ways.

  \<^item> \<open>G\<close>, which is \<open>A\<close> after \<^verbatim>\<open>reserve(3, 3)\<close>, is not empty, and \<open>G * 2\<close> is a matrix of
    size nine whose buffer holds four products and five slots that were never written.
  \<^item> \<open>M\<close> is not empty and \<open>-1\<close> is not zero, and \<open>M / -1\<close> returns nothing: the quotient
    \<^verbatim>\<open>INT_MIN / -1\<close> is undefined.  So is the product \<open>M * 2\<close>.
  \<^item> \<open>A\<close> is not empty, and \<open>A * 2\<close> throws \<^verbatim>\<open>std::bad_alloc\<close> when the allocator refuses
    the result.
\<close>

theorem scalar_arithmetic_counterexample:
  "reserve example_int 3 3 example_A example_heap = (Inr example_G, example_heap_G) \<and>
   \<not> empty_m example_G \<and> row_size example_G = 3 \<and> column_size example_G = 3 \<and>
   flatten example_G example_heap_G = (Inr [1, 2, 3, 4], example_heap_G) \<and>
   mul_scalar example_int example_G 2 example_heap_G =
     (Inr \<lparr>m_rows = 3, m_columns = 3, m_size = 9, m_capacity = 9, m_data = Some 7\<rparr>,
      example_heap_G @
        [Some [Some 2, Some 4, Some 6, Some 8, None, None, None, None, None]]) \<and>
   \<not> empty_m example_M \<and>
   fst (div_scalar example_int example_M (- 1) example_heap) = Inl undefined_behaviour \<and>
   fst (mul_scalar example_int example_M 2 example_heap) = Inl undefined_behaviour \<and>
   \<not> empty_m example_A \<and>
   mul_scalar (cpp_int exhausted) example_A 2 example_heap = (Inl bad_alloc, example_heap)"
  by (simp add: reserve_def mul_scalar_def div_scalar_def matrix_dims_def heap_ops int_ops
      example_A_def example_M_def example_G_def example_heap_def
      example_heap_G_def Let_def replicate_unfold)

section \<open>Division by a matrix with zeros\<close>









section \<open>Comparison operators\<close>

lemma std_equal_same_length:
  "length xs = length ys \<Longrightarrow> std_equal xs ys = (xs = ys)"
  by (induction xs ys rule: list_induct2) simp_all

lemma lexicographical_compare_lexordp:
  "lexicographical_compare xs ys = ord_class.lexordp xs ys"
  by (induction xs ys rule: lexicographical_compare.induct) auto

lemma op_lt_result:
  assumes "flatten a h = (Inr xs, h)" and "flatten b h = (Inr ys, h)"
  shows "op_lt a b h = (Inr (ord_class.lexordp xs ys), h)"
  using assms
  by (simp add: op_lt_def flatten_def then_do_def return_val_def lexicographical_compare_lexordp)

lemma load_n_take:
  assumes "load_n p n h = (Inr ys, h)" and "k \<le> n"
  shows "load_n p k h = (Inr (take k ys), h)"
proof (cases "k = 0")
  case True
  then show ?thesis by (simp add: load_n_def)
next
  case False
  with assms(2) have n: "n \<noteq> 0" by simp
  from load_n_Inr_cases [OF assms(1)] n obtain q blk where b: "p = Some q"
    "block_at h q = Some blk" "n \<le> length blk"
    "list_all (\<lambda>s. s \<noteq> None) (take n blk)" "ys = map the (take n blk)"
    by auto
  have tk: "take k (take n blk) = take k blk" using assms(2) by (simp add: min_def)
  have all: "list_all (\<lambda>s. s \<noteq> None) (take k blk)"
    using b(4) set_take_subset_set_take [OF assms(2), of blk]
    unfolding list_all_iff by blast
  have "take k ys = map the (take k blk)"
    unfolding b(5) take_map tk ..
  with False b all assms(2) show ?thesis by (simp add: load_n_def)
qed

lemma op_eq_differ:
  "dimensions a \<noteq> dimensions b \<Longrightarrow> op_eq a b h = (Inr False, h)"
  by (simp add: op_eq_def return_val_def)

lemma op_eq_prefix:
  assumes fa: "flatten a h = (Inr xs, h)" and fb: "flatten b h = (Inr ys, h)"
    and d: "dimensions a = dimensions b" and le: "size_m a \<le> size_m b"
  shows "op_eq a b h = (Inr (xs = take (length xs) ys), h)"
proof -
  have la: "load_n (m_data a) (m_size a) h = (Inr xs, h)" using fa by (simp add: flatten_def)
  have lb: "load_n (m_data b) (m_size b) h = (Inr ys, h)" using fb by (simp add: flatten_def)
  have lx: "length xs = m_size a" and ly: "length ys = m_size b"
    using la lb by (auto dest!: load_n_Inr_cases)
  from le have le': "m_size a \<le> m_size b" by (simp add: size_m_def)
  have lb': "load_n (m_data b) (m_size a) h = (Inr (take (length xs) ys), h)"
    using load_n_take [OF lb le'] lx by simp
  have "length xs = length (take (length xs) ys)" using lx ly le' by simp
  then have "std_equal xs (take (length xs) ys) = (xs = take (length xs) ys)"
    by (rule std_equal_same_length)
  with d la lb' show ?thesis
    by (simp add: op_eq_def then_do_def return_val_def)
qed

lemma op_eq_result:
  assumes fa: "flatten a h = (Inr xs, h)" and fb: "flatten b h = (Inr ys, h)"
    and ia: "invariant_I1 a" and ib: "invariant_I1 b"
  shows "op_eq a b h = (Inr (dimensions a = dimensions b \<and> xs = ys), h)"
proof (cases "dimensions a = dimensions b")
  case False
  then show ?thesis by (simp add: op_eq_def return_val_def)
next
  case True
  have sb: "m_size b = m_size a" by (rule same_dimensions_same_size [OF ia ib True])
  have "length xs = m_size a" "length ys = m_size b"
    using fa fb by (auto simp: flatten_def dest!: load_n_Inr_cases)
  with sb have "std_equal xs ys = (xs = ys)" by (simp add: std_equal_same_length)
  with True fa fb sb show ?thesis
    by (simp add: op_eq_def flatten_def then_do_def return_val_def)
qed

text \<open>
  Claim C8, as amended.  Let \<open>a\<close> and \<open>b\<close> be matrices whose elements can be read, with
  the flat row-major sequences \<open>xs\<close> and \<open>ys\<close>.  Then \<^verbatim>\<open>a < b\<close> holds exactly when \<open>xs\<close> is
  lexicographically less than \<open>ys\<close>; \<^verbatim>\<open>a > b\<close> is \<^verbatim>\<open>b < a\<close>; \<^verbatim>\<open>a <= b\<close> is the
  negation of \<^verbatim>\<open>b < a\<close>; \<^verbatim>\<open>a >= b\<close> is the negation of \<^verbatim>\<open>a < b\<close>; and \<^verbatim>\<open>a != b\<close> is
  the negation of \<^verbatim>\<open>a == b\<close>.  \<^verbatim>\<open>a == b\<close> is false when the dimensions differ.  When
  they are equal and \<open>a\<close> has no more elements than \<open>b\<close>, it compares the elements of
  \<open>a\<close> with as many elements from the front of \<open>b\<close>.  When the size of both matrices is
  the size that invariant I1 gives for their dimensions, \<^verbatim>\<open>a == b\<close> holds exactly when
  the dimensions are equal and all elements are equal.  No comparison changes the heap.
\<close>

theorem matrix_comparisons:
  assumes "flatten a h = (Inr xs, h)" and "flatten b h = (Inr ys, h)"
  shows "op_lt a b h = (Inr (ord_class.lexordp xs ys), h) \<and>
         op_lt b a h = (Inr (ord_class.lexordp ys xs), h) \<and>
         op_gt a b h = op_lt b a h \<and>
         op_le a b h = (Inr (\<not> ord_class.lexordp ys xs), h) \<and>
         op_ge a b h = (Inr (\<not> ord_class.lexordp xs ys), h) \<and>
         (\<forall>r h'. op_eq a b h = (Inr r, h') \<longrightarrow> op_neq a b h = (Inr (\<not> r), h')) \<and>
         (dimensions a \<noteq> dimensions b \<longrightarrow> op_eq a b h = (Inr False, h)) \<and>
         (dimensions a = dimensions b \<and> size_m a \<le> size_m b \<longrightarrow>
            op_eq a b h = (Inr (xs = take (length xs) ys), h)) \<and>
         (invariant_I1 a \<and> invariant_I1 b \<longrightarrow>
            op_eq a b h = (Inr (dimensions a = dimensions b \<and> xs = ys), h) \<and>
            op_neq a b h = (Inr (\<not> (dimensions a = dimensions b \<and> xs = ys)), h))"
proof -
  have ord: "op_lt a b h = (Inr (ord_class.lexordp xs ys), h) \<and>
         op_lt b a h = (Inr (ord_class.lexordp ys xs), h) \<and>
         op_gt a b h = op_lt b a h \<and>
         op_le a b h = (Inr (\<not> ord_class.lexordp ys xs), h) \<and>
         op_ge a b h = (Inr (\<not> ord_class.lexordp xs ys), h)"
    using op_lt_result [OF assms(1,2)] op_lt_result [OF assms(2,1)]
    by (simp add: op_gt_def op_le_def op_ge_def then_do_def return_val_def)
  have neq: "\<forall>r h'. op_eq a b h = (Inr r, h') \<longrightarrow> op_neq a b h = (Inr (\<not> r), h')"
    by (simp add: op_neq_def then_do_def return_val_def)
  have differ: "dimensions a \<noteq> dimensions b \<longrightarrow> op_eq a b h = (Inr False, h)"
    by (simp add: op_eq_differ)
  have prefix: "dimensions a = dimensions b \<and> size_m a \<le> size_m b \<longrightarrow>
            op_eq a b h = (Inr (xs = take (length xs) ys), h)"
    using op_eq_prefix [OF assms] by blast
  have full: "invariant_I1 a \<and> invariant_I1 b \<longrightarrow>
            op_eq a b h = (Inr (dimensions a = dimensions b \<and> xs = ys), h) \<and>
            op_neq a b h = (Inr (\<not> (dimensions a = dimensions b \<and> xs = ys)), h)"
    using op_eq_result [OF assms]
    by (simp add: op_neq_def then_do_def return_val_def)
  from ord neq differ prefix full show ?thesis by blast
qed

text \<open>
  \<open>A = [[1, 2], [3, 4]]\<close> against \<open>B = [[5, 6], [7, 8]]\<close>, against \<open>A2\<close> with the same
  elements and against \<open>C\<close> of other dimensions; and \<open>L\<close>, without elements, against
  \<open>R\<close>, six zeros, of the same dimensions.
\<close>

theorem matrix_comparisons_witness:
  "op_lt example_A example_B example_heap = (Inr True, example_heap) \<and>
   op_gt example_A example_B example_heap = (Inr False, example_heap) \<and>
   op_le example_A example_B example_heap = (Inr True, example_heap) \<and>
   op_ge example_A example_B example_heap = (Inr False, example_heap) \<and>
   op_eq example_A example_B example_heap = (Inr False, example_heap) \<and>
   op_neq example_A example_B example_heap = (Inr True, example_heap) \<and>
   op_eq example_A example_A2 example_heap = (Inr True, example_heap) \<and>
   op_eq example_A example_C example_heap = (Inr False, example_heap) \<and>
   op_eq example_L example_R example_heap_LR = (Inr True, example_heap_LR) \<and>
   op_neq example_L example_R example_heap_LR = (Inr False, example_heap_LR)"
proof -
  have d: "dimensions example_A = dimensions example_A2"
    "dimensions example_A \<noteq> dimensions example_C"
    "dimensions example_L = dimensions example_R"
    "size_m example_L \<le> size_m example_R"
    by (simp_all add: dimensions_def size_m_def example_A_def example_A2_def example_C_def
        example_L_def example_R_def)
  from matrix_comparisons [OF flatten_example_A flatten_example_B] invariant_I1_examples(1,2)
  have one: "op_lt example_A example_B example_heap = (Inr True, example_heap) \<and>
   op_gt example_A example_B example_heap = (Inr False, example_heap) \<and>
   op_le example_A example_B example_heap = (Inr True, example_heap) \<and>
   op_ge example_A example_B example_heap = (Inr False, example_heap) \<and>
   op_eq example_A example_B example_heap = (Inr False, example_heap) \<and>
   op_neq example_A example_B example_heap = (Inr True, example_heap)"
    by simp
  from matrix_comparisons [OF flatten_example_A flatten_example_A2] invariant_I1_examples(1,5)
    d(1)
  have two: "op_eq example_A example_A2 example_heap = (Inr True, example_heap)"
    by simp
  from matrix_comparisons [OF flatten_example_A flatten_example_C] d(2)
  have three: "op_eq example_A example_C example_heap = (Inr False, example_heap)"
    by simp
  from matrix_comparisons [OF flatten_example_L flatten_example_R] d(3,4)
  have four: "op_eq example_L example_R example_heap_LR = (Inr True, example_heap_LR) \<and>
   op_neq example_L example_R example_heap_LR = (Inr False, example_heap_LR)"
    by simp
  from one two three four show ?thesis by blast
qed

text \<open>
  Claim C8 as stated, for every pair of matrices, fails for \<^verbatim>\<open>==\<close>.  \<open>R\<close> is
  \<^verbatim>\<open>matrix<int>(2, 3, 0)\<close>, and \<open>L\<close> is a default-constructed matrix after
  \<^verbatim>\<open>reserve(2, 3)\<close>: two rows and three columns, and no element.  The dimensions are
  equal, and \<^verbatim>\<open>L == R\<close> compares the elements of \<open>L\<close> only: it is true, although the
  element sequences, empty and six zeros, differ (and although \<^verbatim>\<open>L < R\<close> is true as
  well).  \<^verbatim>\<open>R == L\<close> reads six elements from the buffer of \<open>L\<close>, which holds none.
\<close>

theorem matrix_comparisons_counterexample:
  "matrix_fill example_int 2 3 0 [] = (Inr example_R, example_heap_R) \<and>
   reserve example_int 2 3 matrix_default example_heap_R = (Inr example_L, example_heap_LR) \<and>
   dimensions example_L = dimensions example_R \<and>
   flatten example_L example_heap_LR = (Inr [], example_heap_LR) \<and>
   flatten example_R example_heap_LR = (Inr [0, 0, 0, 0, 0, 0], example_heap_LR) \<and>
   op_eq example_L example_R example_heap_LR = (Inr True, example_heap_LR) \<and>
   op_neq example_L example_R example_heap_LR = (Inr False, example_heap_LR) \<and>
   op_lt example_L example_R example_heap_LR = (Inr True, example_heap_LR) \<and>
   fst (op_eq example_R example_L example_heap_LR) = Inl undefined_behaviour"
  by (simp add: matrix_fill_def reserve_def matrix_default_def op_eq_def op_neq_def op_lt_def
      heap_ops int_ops Let_def example_L_def example_R_def example_heap_R_def
      example_heap_LR_def replicate_unfold)

section \<open>Point access\<close>





section \<open>Clearing\<close>

lemma clear_nonempty:
  assumes i: "invariant_I2 h m" and n: "m_size m \<noteq> 0"
  shows "\<exists>p blk. m_data m = Some p \<and> block_at h p = Some blk \<and> length blk = m_capacity m \<and>
           clear m h =
             (Inr (m\<lparr>m_size := 0, m_rows := 0, m_columns := 0\<rparr>),
              h[p := Some (replicate (m_capacity m) None)])"
proof -
  from I2_cases [OF i] n obtain p blk where p: "m_data m = Some p" "block_at h p = Some blk"
    "length blk = m_capacity m" "m_size m \<le> m_capacity m"
    "list_all (\<lambda>s. s = None) (drop (m_size m) blk)"
    by auto
  from all_raw_replicate [OF p(5)] p(3)
  have "drop (m_size m) blk = replicate (m_capacity m - m_size m) None"
    by simp
  with p(3,4) have "replicate (m_size m) None @ drop (m_size m) blk =
      replicate (m_capacity m) None"
    by (simp add: replicate_add [symmetric])
  with p n show ?thesis
    by (simp add: clear_def destroy_n_def then_do_def return_val_def)
qed

text \<open>
  On a matrix whose buffer satisfies invariant I2, \<^verbatim>\<open>clear()\<close> returns normally;
  afterwards \<open>size()\<close> is zero and no slot of the buffer holds an object, while
  \<open>capacity()\<close>, the buffer pointer and the allocation are as before, and no other block
  of the heap has changed.  If \<open>size()\<close> was not zero, the row and column counts are zero
  afterwards; if it was zero already, \<^verbatim>\<open>clear()\<close> changes nothing.
\<close>

lemma clear_effect:
  assumes "invariant_I2 h m"
  shows "\<exists>m' h'. clear m h = (Inr m', h') \<and>
           size_m m' = 0 \<and> capacity m' = capacity m \<and> m_data m' = m_data m \<and>
           flatten m' h' = (Inr [], h') \<and> invariant_I2 h' m' \<and> length h' = length h \<and>
           (\<forall>q. m_data m \<noteq> Some q \<longrightarrow> block_at h' q = block_at h q) \<and>
           (\<forall>p. m_data m = Some p \<longrightarrow>
              block_at h' p = Some (replicate (capacity m) None)) \<and>
           (size_m m \<noteq> 0 \<longrightarrow> row_size m' = 0 \<and> column_size m' = 0) \<and>
           (size_m m = 0 \<longrightarrow> m' = m \<and> h' = h)"
proof (cases "m_size m = 0")
  case True
  have c: "clear m h = (Inr m, h)" using True by (simp add: clear_def return_val_def)
  have f: "flatten m h = (Inr [], h)" using True by (simp add: flatten_def load_n_def)
  have raw: "block_at h p = Some (replicate (capacity m) None)" if "m_data m = Some p" for p
  proof -
    from I2_cases [OF assms] that True obtain blk where b: "block_at h p = Some blk"
      "length blk = m_capacity m" "list_all (\<lambda>s. s = None) blk"
      by auto
    from all_raw_replicate [OF b(3)] b(1,2) show ?thesis by (simp add: capacity_def)
  qed
  from c f raw assms True show ?thesis by (simp add: size_m_def)
next
  case False
  from clear_nonempty [OF assms False] obtain p blk where p: "m_data m = Some p"
    "block_at h p = Some blk" "length blk = m_capacity m"
    "clear m h = (Inr (m\<lparr>m_size := 0, m_rows := 0, m_columns := 0\<rparr>),
              h[p := Some (replicate (m_capacity m) None)])"
    by blast
  let ?m' = "m\<lparr>m_size := 0, m_rows := 0, m_columns := 0\<rparr>"
  let ?h' = "h[p := Some (replicate (m_capacity m) None)]"
  have pl: "p < length h" by (rule block_at_Some_less [OF p(2)])
  have b': "block_at ?h' p = Some (replicate (m_capacity m) None)"
    by (rule block_at_update_same [OF pl])
  have i': "invariant_I2 ?h' ?m'"
    using p(1) b' by (simp add: invariant_I2_def list_all_length)
  have f': "flatten ?m' ?h' = (Inr [], ?h')" by (simp add: flatten_def load_n_def)
  have other: "block_at ?h' q = block_at h q" if "m_data m \<noteq> Some q" for q
    using that p(1) by (simp add: block_at_update_other)
  from p(1,4) b' i' f' other False show ?thesis
    by (simp add: size_m_def capacity_def row_size_def column_size_def)
qed

text \<open>
  Claim C9 at a default-constructed matrix after \<^verbatim>\<open>reserve(2, 3)\<close>, which has two rows,
  three columns, no element and a buffer of six slots.  By the claim (and by the
  comment above \<^verbatim>\<open>clear\<close> in the source: ``the dimensions of the matrix and overall
  size is set to zero'') the matrix should have no rows and no columns after
  \<^verbatim>\<open>clear()\<close>.  The code assigns the dimensions inside \<^verbatim>\<open>if (m_size)\<close> only: \<^verbatim>\<open>clear()\<close>
  changes nothing, and the matrix still has two rows and three columns.
\<close>

theorem clear_keeps_dimensions:
  "reserve example_int 2 3 matrix_default [] =
     (Inr \<lparr>m_rows = 2, m_columns = 3, m_size = 0, m_capacity = 6, m_data = Some 0\<rparr>,
      [Some [None, None, None, None, None, None]]) \<and>
   clear \<lparr>m_rows = 2, m_columns = 3, m_size = 0, m_capacity = 6, m_data = Some 0\<rparr>
      ([Some [None, None, None, None, None, None]] :: 32 word heap) =
     (Inr \<lparr>m_rows = 2, m_columns = 3, m_size = 0, m_capacity = 6, m_data = Some 0\<rparr>,
      [Some [None, None, None, None, None, None]]) \<and>
   row_size \<lparr>m_rows = 2, m_columns = 3, m_size = 0, m_capacity = 6, m_data = Some 0\<rparr> = 2 \<and>
   column_size \<lparr>m_rows = 2, m_columns = 3, m_size = 0, m_capacity = 6, m_data = Some 0\<rparr> = 3"
  by (simp add: reserve_def clear_def matrix_default_def heap_ops int_ops Let_def
      replicate_unfold)

section \<open>Reserving\<close>

text \<open>
  When the requested capacity does not exceed the current one, \<^verbatim>\<open>reserve\<close> returns
  without assigning anything.
\<close>

lemma reserve_without_growth:
  "dims_size new_rows new_columns \<le> m_capacity m \<Longrightarrow>
   reserve T new_rows new_columns m h = (Inr m, h)"
  by (simp add: reserve_def Let_def return_val_def)

text \<open>
  When it does, and the allocator grants the new buffer, \<^verbatim>\<open>reserve\<close> allocates a block
  of exactly the new capacity, moves the live elements to its front in their order,
  releases the old block and assigns the capacity and the dimensions.  The size is not
  assigned.
\<close>

lemma reserve_growth:
  assumes i: "invariant_I2 h m" and f: "flatten m h = (Inr xs, h)"
    and g: "dims_size new_rows new_columns > m_capacity m"
    and ft: "fits T (dims_size new_rows new_columns)"
    and gr: "grants T h (dims_size new_rows new_columns)"
  shows "\<exists>m' h'. reserve T new_rows new_columns m h = (Inr m', h') \<and>
           row_size m' = new_rows \<and> column_size m' = new_columns \<and>
           capacity m' = dims_size new_rows new_columns \<and> size_m m' = size_m m \<and>
           m_data m' = Some (length h) \<and>
           block_at h' (length h) =
             Some (map Some xs @ replicate (dims_size new_rows new_columns - size_m m) None) \<and>
           flatten m' h' = (Inr xs, h') \<and> invariant_I2 h' m' \<and>
           (\<forall>p. m_data m = Some p \<longrightarrow> block_at h' p = None)"
proof -
  let ?c = "dims_size new_rows new_columns"
  let ?h1 = "h @ [Some (replicate ?c None)]"
  let ?blk = "map Some xs @ replicate (?c - m_size m) None"
  let ?h2 = "h @ [Some ?blk]"
  let ?m' = "m\<lparr>m_data := Some (length h), m_capacity := ?c, m_rows := new_rows,
                m_columns := new_columns\<rparr>"
  have c0: "?c \<noteq> 0" using g by simp
  have lx: "length xs = m_size m"
    using f by (auto simp: flatten_def dest!: load_n_Inr_cases)
  have sc: "m_size m \<le> m_capacity m"
    using I2_cases [OF i] by auto
  have a: "M_allocate T ?c h = (Inr (Some (length h)), ?h1)"
    using c0 gr by (simp add: M_allocate_fits [OF ft] grants_def)
  have l: "load_n (m_data m) (m_size m) ?h1 = (Inr xs, ?h1)"
    using f by (simp add: flatten_def load_n_append)
  have w: "write_n (Some (length h)) 0 xs ?h1 = (Inr (), ?h2)"
  proof (cases "xs = []")
    case True
    with lx show ?thesis by (simp add: write_n_def)
  next
    case False
    with lx sc g show ?thesis
      by (simp add: write_n_def block_at_append_new)
  qed
  have rel: "\<exists>h3. then_do (destroy_n (m_data m) (m_capacity m))
               (\<lambda>_. M_deallocate (m_data m)) ?h2 = (Inr (), h3) \<and>
             length h3 = Suc (length h) \<and> block_at h3 (length h) = Some ?blk \<and>
             (\<forall>p. m_data m = Some p \<longrightarrow> block_at h3 p = None)"
  proof (cases "m_data m")
    case None
    with I2_cases [OF i] show ?thesis
      by (simp add: destroy_n_def M_deallocate_def then_do_def block_at_append_new)
  next
    case (Some p)
    with I2_cases [OF i] obtain blk where b: "block_at h p = Some blk"
      "length blk = m_capacity m"
      by auto
    have pl: "p < length h" by (rule block_at_Some_less [OF b(1)])
    have b2: "block_at ?h2 p = Some blk"
      using b(1) pl by (simp add: block_at_append_old)
    show ?thesis
      using Some b2 b(2) pl
      by (simp add: destroy_n_def M_deallocate_def then_do_def block_at_def nth_append
          nth_list_update)
  qed
  then obtain h3 where h3: "then_do (destroy_n (m_data m) (m_capacity m))
               (\<lambda>_. M_deallocate (m_data m)) ?h2 = (Inr (), h3)"
    "length h3 = Suc (length h)" "block_at h3 (length h) = Some ?blk"
    "\<forall>p. m_data m = Some p \<longrightarrow> block_at h3 p = None"
    by blast
  have run: "reserve T new_rows new_columns m h = (Inr ?m', h3)"
    using g h3(1)
    by (auto simp: reserve_def Let_def then_do_def a l w return_val_def
        split: prod.splits sum.splits)
  have fl: "flatten ?m' h3 = (Inr xs, h3)"
    using h3(3) lx by (auto simp: flatten_def load_n_def list_all_length nth_append comp_def)
  have inv: "invariant_I2 h3 ?m'"
    using h3(3) lx sc g by (simp add: invariant_I2_def list_all_length nth_append)
  from run fl inv h3 show ?thesis
    by (simp add: row_size_def column_size_def capacity_def size_m_def)
qed

text \<open>
  Claim C3 at the \<open>2 \<times> 3\<close> matrix of zeros and \<^verbatim>\<open>reserve(3, 2)\<close>.  The new capacity,
  six, does not exceed the current one, so by the claim (and by the comment above
  \<^verbatim>\<open>reserve\<close> in the source) the matrix should now have three rows and two columns.
  The code leaves it with two rows and three columns: it changes nothing.
\<close>

theorem reserve_keeps_dimensions:
  "matrix_fill example_int 2 3 0 [] =
     (Inr \<lparr>m_rows = 2, m_columns = 3, m_size = 6, m_capacity = 6, m_data = Some 0\<rparr>,
      [Some [Some 0, Some 0, Some 0, Some 0, Some 0, Some 0]]) \<and>
   reserve example_int 3 2
      \<lparr>m_rows = 2, m_columns = 3, m_size = 6, m_capacity = 6, m_data = Some 0\<rparr>
      [Some [Some 0, Some 0, Some 0, Some 0, Some 0, Some 0]] =
     (Inr \<lparr>m_rows = 2, m_columns = 3, m_size = 6, m_capacity = 6, m_data = Some 0\<rparr>,
      [Some [Some 0, Some 0, Some 0, Some 0, Some 0, Some 0]])"
  by (simp add: matrix_fill_def reserve_def heap_ops int_ops Let_def replicate_unfold)

section \<open>Moving\<close>

text \<open>
  The move constructor hands all five members to the new object and resets four of
  those of the moved-from object: the capacity keeps its value.
\<close>

lemma matrix_move_result:
  "matrix_move m =
     (m, \<lparr>m_rows = 0, m_columns = 0, m_size = 0, m_capacity = m_capacity m, m_data = None\<rparr>)"
  by (simp add: matrix_move_def)

text \<open>
  Claim C2 at the matrix \<open>A = [[1, 2], [3, 4]]\<close>, whose capacity is four.  By the claim
  (and by the comments above the move constructor and the move assignment in the
  source: ``leaves the other matrix in a default constructed state'') \<open>A\<close> should have
  capacity zero after a move, and the destination should hold what \<open>A\<close> held.

  \<^item> After move construction from \<open>A\<close>, and after move assignment from \<open>A\<close> to \<open>B\<close>, the
    capacity of \<open>A\<close> is still four: neither function assigns \<^verbatim>\<open>other.m_capacity\<close>.
  \<^item> Move assignment from \<open>A\<close> to \<open>A2\<close>, another object with its own buffer and the
    same elements, transfers nothing: the guard \<^verbatim>\<open>if (*this != other)\<close>, which the
    comment describes as a test for self assignment, compares the values.  \<open>A\<close> keeps
    its size, its capacity and its buffer.
\<close>

theorem move_keeps_capacity:
  "matrix_move example_A =
     (example_A,
      \<lparr>m_rows = 0, m_columns = 0, m_size = 0, m_capacity = 4, m_data = None\<rparr>) \<and>
   capacity (snd (matrix_move example_A)) = 4 \<and>
   assign_move example_B example_A example_heap =
     (Inr (\<lparr>m_rows = 2, m_columns = 2, m_size = 4, m_capacity = 4, m_data = Some 0\<rparr>,
           \<lparr>m_rows = 0, m_columns = 0, m_size = 0, m_capacity = 4, m_data = None\<rparr>),
      example_heap) \<and>
   m_data example_A2 \<noteq> m_data example_A \<and>
   assign_move example_A2 example_A example_heap =
     (Inr (example_A2, example_A), example_heap) \<and>
   size_m example_A = 4 \<and> capacity example_A = 4 \<and> m_data example_A = Some 0"
  by (simp add: matrix_move_def assign_move_def op_neq_def op_eq_def heap_ops
      example_A_def example_A2_def example_B_def example_heap_def)

section \<open>Construction from an initialiser list\<close>

text \<open>
  Claim C1 at the list \<open>[[1, 2, 3], [4, 5, 6]]\<close>.  By the claim the value \<open>4\<close>, at
  position \<open>0\<close> of row \<open>1\<close>, belongs at the flat offset \<open>1 * 3 + 0 = 3\<close>, and the buffer
  should read \<open>1, 2, 3, 4, 5, 6\<close>.  The constructor and the assignment advance the
  destination by two per row, not by the three columns: the second row is written at
  offset \<open>2\<close>, over the \<open>3\<close>.  Offset \<open>3\<close> holds \<open>5\<close>, and the last slot, at offset
  \<open>1 * 3 + 2\<close>, holds no object at all.
\<close>

theorem init_list_offset_two:
  "matrix_init_list example_int [[1, 2, 3], [4, 5, 6]] [] =
     (Inr \<lparr>m_rows = 2, m_columns = 3, m_size = 6, m_capacity = 6, m_data = Some 0\<rparr>,
      [Some [Some 1, Some 2, Some 4, Some 5, Some 6, None]]) \<and>
   assign_init_list example_int matrix_default [[1, 2, 3], [4, 5, 6]] [] =
     (Inr \<lparr>m_rows = 2, m_columns = 3, m_size = 6, m_capacity = 6, m_data = Some 0\<rparr>,
      [Some [Some 1, Some 2, Some 4, Some 5, Some 6, None]]) \<and>
   deref (Some 0, 1 * 3 + 0)
     [Some [Some 1, Some 2, Some 4, Some 5, Some 6, None :: 32 word option]] = Some 5 \<and>
   deref (Some 0, 1 * 3 + 2)
     [Some [Some 1, Some 2, Some 4, Some 5, Some 6, None :: 32 word option]] = None"
  by (simp add: matrix_init_list_def assign_init_list_def matrix_default_def heap_ops int_ops
      Let_def deref_def replicate_unfold)

text \<open>
  With one column and two rows the second row is written at offset \<open>2\<close> of a block of
  two slots, outside the buffer.
\<close>

lemma init_list_single_column:
  "fst (matrix_init_list example_int [[1], [2]] []) = Inl undefined_behaviour"
  by (simp add: matrix_init_list_def heap_ops int_ops Let_def replicate_unfold)

text \<open>
  With two columns the increment is the column count, and the rows are in place.
\<close>

lemma init_list_two_columns:
  "matrix_init_list example_int [[1, 2], [3, 4]] [] =
     (Inr \<lparr>m_rows = 2, m_columns = 2, m_size = 4, m_capacity = 4, m_data = Some 0\<rparr>,
      [Some [Some 1, Some 2, Some 3, Some 4]])"
  by (simp add: matrix_init_list_def heap_ops int_ops Let_def replicate_unfold)

text \<open>
  A row of the wrong length stops the loop with the exception.
\<close>

lemma init_list_mismatch:
  "fst (matrix_init_list example_int [[1, 2], [3], [4, 5]] []) =
     Inl (invalid_argument ''Columns must be all the same size'')"
  by (simp add: matrix_init_list_def heap_ops int_ops Let_def replicate_unfold)

end
